theory Spec2Isabelle
  imports Complex_Main
begin

section \<open>The store: one list of rows per table of \<^verbatim>\<open>db.py\<close>\<close>

text \<open>
  The tables are those created by \<^verbatim>\<open>init_db\<close> (with every optional column of
  \<^verbatim>\<open>sales\<close> present). A table is the list of its rows in rowid order, so that
  \<^verbatim>\<open>fetchone()\<close> is the first matching row, \<^verbatim>\<open>INSERT\<close> appends and
  \<^verbatim>\<open>UPDATE ... WHERE\<close> rewrites every matching row. A float is the real number it
  denotes (infinities and NaN are not modelled); where the program rounds before it
  decides, the rounding is modelled (see \<open>fl\<close> below). A date-time is the number of
  microseconds since 0001-01-01T00:00:00; a text timestamp (\<^verbatim>\<open>isoformat() + 'Z'\<close>)
  is stored as that number.
\<close>

record product =
  p_id :: int
  p_name :: string
  p_unit_price :: real

record source =
  s_id :: int
  s_name :: string
  s_unit :: string
  s_quantity :: real
  s_last_updated :: int

record product_source =
  ps_product_id :: int
  ps_source_id :: int
  ps_factor :: real

record inventory_row =
  i_id :: int
  i_product_id :: int
  i_quantity :: real
  i_last_updated :: int

record movement =
  m_id :: int
  m_kind :: string
  m_ref_id :: int
  m_delta :: real
  m_reason :: string
  m_timestamp :: int
  m_user_id :: "int option"

record sale =
  sale_id :: int
  sale_product_id :: int
  sale_quantity :: real
  sale_unit_price :: real
  sale_total :: real
  sale_payment_method :: string
  sale_timestamp :: int
  sale_created_by :: "int option"
  sale_bottles_used :: int
  sale_bottle_price :: real
  sale_client_timestamp :: "string option"

record db =
  products :: "product list"
  sources :: "source list"
  product_sources :: "product_source list"
  inventory :: "inventory_row list"
  movements :: "movement list"
  sales :: "sale list"

text \<open>
  The exceptions that leave the functions below. Every \<^verbatim>\<open>raise ValueError(msg)\<close> of
  the source keeps its message; \<open>TypeError\<close> is the one Python raises when an
  offset-aware date-time is compared with an offset-naive one; \<open>OverflowError\<close> is
  raised when an integer is too large to be converted to a float or to be bound to a
  parameter of an SQL statement.
\<close>

datatype error = ValueError string | TypeError | OverflowError

text \<open>The rowid SQLite gives to a row inserted without an id: 1 in an empty table, the largest id plus one otherwise.\<close>

definition next_id :: "int list \<Rightarrow> int" where
  "next_id ids = (case ids of [] \<Rightarrow> 1 | x # xs \<Rightarrow> fold max xs x + 1)"

section \<open>Python and SQLite primitives\<close>

text \<open>\<^verbatim>\<open>str(n)\<close> for an integer, as used by the f-strings of the source.\<close>

fun str_nat :: "nat \<Rightarrow> string" where
  "str_nat n = (if n < 10 then [''0123456789'' ! n] else str_nat (n div 10) @ [''0123456789'' ! (n mod 10)])"

definition str_int :: "int \<Rightarrow> string" where
  "str_int i = (if i < 0 then CHR ''-'' # str_nat (nat (- i)) else str_nat (nat i))"

text \<open>\<^verbatim>\<open>int(x)\<close> on a float truncates towards zero; \<^verbatim>\<open>float.is_integer\<close>; \<^verbatim>\<open>math.ceil\<close> is \<^term>\<open>ceiling\<close>.\<close>

definition py_int :: "real \<Rightarrow> int" where
  "py_int x = (if 0 \<le> x then \<lfloor>x\<rfloor> else \<lceil>x\<rceil>)"

definition is_integer :: "real \<Rightarrow> bool" where
  "is_integer x = (x = of_int \<lfloor>x\<rfloor>)"

subsection \<open>Floats and integers\<close>

text \<open>
  The double nearest to a real number: 53 significant bits, ties to the even
  significand, gradual underflow below \<open>2 powi (- 1022)\<close> (overflow to infinity is not
  modelled). \<open>ulp_exp x\<close> is the exponent of the last bit of a double of the size of
  \<open>x\<close>.
\<close>

definition round_half_even :: "real \<Rightarrow> int" where
  "round_half_even y =
     (let f = \<lfloor>y\<rfloor>; r = y - of_int f
      in if r < 1 / 2 then f else if 1 / 2 < r then f + 1 else if even f then f else f + 1)"

definition ulp_exp :: "real \<Rightarrow> int" where
  "ulp_exp x = max (\<lfloor>log 2 \<bar>x\<bar>\<rfloor> - 52) (- 1074)"

definition fl :: "real \<Rightarrow> real" where
  "fl x = (if x = 0 then 0
           else of_int (round_half_even (x / 2 powi ulp_exp x)) * 2 powi ulp_exp x)"

text \<open>
  A product of two floats is the exact product rounded, and the program decides on the
  rounded value. A sum or difference of two floats has the sign of the exact result, so
  a check of the form \<^verbatim>\<open>cur_q - x < 0\<close> is decided on the exact difference; the
  rounding of the values that are stored is not modelled.

  Where a Python int meets a float (\<^verbatim>\<open>cur_q - bottles_to_consume\<close>,
  \<^verbatim>\<open>bottle_price * bottles_count\<close>) the int is first converted to the nearest double;
  the conversion raises OverflowError when that double would be \<open>2 ^ 1024\<close> or more in
  size.
\<close>

definition py_float :: "int \<Rightarrow> error + real" where
  "py_float n = (let c = fl (of_int n) in if 2 ^ 1024 \<le> \<bar>c\<bar> then Inl OverflowError else Inr c)"

text \<open>
  An int bound to a parameter of an SQL statement must fit SQLite's 64-bit integer;
  otherwise \<^verbatim>\<open>execute\<close> raises OverflowError.
\<close>

definition sqlite_int :: "int \<Rightarrow> bool" where
  "sqlite_int n = (- (2 ^ 63) \<le> n \<and> n < 2 ^ 63)"

text \<open>
  \<^verbatim>\<open>name LIKE '%Empty%'\<close>: SQLite's LIKE ignores the case of ASCII letters, and the
  pattern asks for the word anywhere in the name.
\<close>

definition ascii_lower :: "char \<Rightarrow> char" where
  "ascii_lower c =
     (case map_of (zip ''ABCDEFGHIJKLMNOPQRSTUVWXYZ'' ''abcdefghijklmnopqrstuvwxyz'') c of
        Some l \<Rightarrow> l | None \<Rightarrow> c)"

fun contains :: "string \<Rightarrow> string \<Rightarrow> bool" where
  "contains pat [] = (pat = [])"
| "contains pat (c # cs) = (take (length pat) (c # cs) = pat \<or> contains pat cs)"

definition like_Empty :: "string \<Rightarrow> bool" where
  "like_Empty name = contains ''empty'' (map ascii_lower name)"

subsection \<open>Dates and times\<close>

text \<open>
  What \<^verbatim>\<open>datetime.fromisoformat\<close> returns: the clock value and, when the string
  carries one, the UTC offset (both in microseconds).
\<close>

record pdt =
  clock_val :: int
  utcoffset :: "int option"

definition day_us :: int where
  "day_us = 86400000000"

text \<open>\<^verbatim>\<open>datetime.max\<close> is the last microsecond of 9999-12-31, whose day number is 3652059.\<close>

definition dt_end :: int where
  "dt_end = 3652059 * day_us"

text \<open>
  \<^verbatim>\<open>cd.astimezone(timezone.utc).replace(tzinfo=None)\<close>: the clock value minus the
  offset; Python raises OverflowError when that leaves the years 1 to 9999.
\<close>

definition astimezone_utc :: "int \<Rightarrow> int \<Rightarrow> int option" where
  "astimezone_utc v off = (let u = v - off in if 0 \<le> u \<and> u < dt_end then Some u else None)"

text \<open>\<^verbatim>\<open>datetime.combine(d, now.time())\<close> for a day number \<open>d\<close>, and \<^verbatim>\<open>replace(microsecond=0)\<close>.\<close>

definition combine :: "int \<Rightarrow> int \<Rightarrow> int" where
  "combine d now = d * day_us + now mod day_us"

definition replace_microsecond_0 :: "int \<Rightarrow> int" where
  "replace_microsecond_0 v = v - v mod 1000000"

text \<open>
  The library and the clock as the order code sees them. \<open>fromisoformat\<close> and
  \<open>strptime_ymd\<close> (\<^verbatim>\<open>datetime.strptime(s, "%Y-%m-%d").date()\<close>, a day number) give
  \<open>None\<close> where Python raises. \<^verbatim>\<open>datetime.utcnow()\<close> is read at four places of
  \<^verbatim>\<open>record_order\<close>, each at most once per call; each place has its own reading, and
  nothing is assumed about their order.
\<close>

record env =
  fromisoformat :: "string \<Rightarrow> pdt option"
  strptime_ymd :: "string \<Rightarrow> int option"
  utcnow_combine :: int
  utcnow_check :: int
  utcnow_stamp :: int
  utcnow_ts :: int

section \<open>Stock ledger\<close>







section \<open>The order transaction\<close>

text \<open>
  The parameters of \<^verbatim>\<open>record_order\<close>, with the types the request layer passes: the
  product id and the bottle count are arbitrary Python ints; \<open>created_by\<close> is the id of
  the logged-in user's row, hence an integer SQLite can store.
\<close>

record order_args =
  product_id :: int
  quantity :: real
  payment_method :: string
  order_date :: "string option"
  created_by :: "int option"
  use_bottle :: bool
  bottles_used :: "int option"
  bottle_price :: real
  client_timestamp :: "string option"

subsection \<open>Price\<close>

text \<open>The first statement after \<^verbatim>\<open>BEGIN\<close> binds the product id.\<close>

definition lookup_product :: "db \<Rightarrow> int \<Rightarrow> error + product" where
  "lookup_product d pid =
     (if \<not> sqlite_int pid then Inl OverflowError
      else case find (\<lambda>p. p_id p = pid) (products d) of
             None \<Rightarrow> Inl (ValueError (''product id '' @ str_int pid @ '' not found''))
           | Some p \<Rightarrow> Inr p)"

text \<open>\<^verbatim>\<open>int(quantity) if float(quantity).is_integer() else math.ceil(quantity)\<close>\<close>

definition bottles_of_quantity :: "real \<Rightarrow> int" where
  "bottles_of_quantity q = (if is_integer q then py_int q else \<lceil>q\<rceil>)"

definition order_total :: "product \<Rightarrow> order_args \<Rightarrow> error + real" where
  "order_total p a =
     (let total = p_unit_price p * quantity a in
      if use_bottle a \<and> bottle_price a > 0 then
        let bottles_count = (case bottles_used a of Some b \<Rightarrow> b
                             | None \<Rightarrow> bottles_of_quantity (quantity a))
        in case py_float bottles_count of
             Inl err \<Rightarrow> Inl err
           | Inr c \<Rightarrow> Inr (total + bottle_price a * c)
      else Inr total)"

subsection \<open>Timestamp\<close>

text \<open>
  The first \<^verbatim>\<open>try\<close> block: an absent or empty client timestamp is skipped; any
  exception inside the block (the parse, or the conversion to UTC) leaves \<^verbatim>\<open>od_dt\<close>
  at \<^verbatim>\<open>None\<close>.
\<close>

definition od_dt_client :: "env \<Rightarrow> string option \<Rightarrow> int option" where
  "od_dt_client e cts =
     (case cts of
        None \<Rightarrow> None
      | Some s \<Rightarrow>
          if s = [] then None
          else (case fromisoformat e s of
                  None \<Rightarrow> None
                | Some cd \<Rightarrow>
                    (case utcoffset cd of
                       Some off \<Rightarrow> astimezone_utc (clock_val cd) off
                     | None \<Rightarrow> Some (clock_val cd))))"

text \<open>\<^verbatim>\<open>od_dt\<close> after the order-date fallback; the date-time parsed from the order date keeps its offset.\<close>

definition od_dt :: "env \<Rightarrow> order_args \<Rightarrow> error + pdt option" where
  "od_dt e a =
     (case od_dt_client e (client_timestamp a) of
        Some v \<Rightarrow> Inr (Some \<lparr>clock_val = v, utcoffset = None\<rparr>)
      | None \<Rightarrow>
          (case order_date a of
             None \<Rightarrow> Inr None
           | Some s \<Rightarrow>
               if s = [] then Inr None
               else (case fromisoformat e s of
                       Some d \<Rightarrow> Inr (Some d)
                     | None \<Rightarrow>
                         (case strptime_ymd e s of
                            Some day \<Rightarrow>
                              Inr (Some \<lparr>clock_val = combine day (utcnow_combine e), utcoffset = None\<rparr>)
                          | None \<Rightarrow>
                              Inl (ValueError
                                ''order_date must be YYYY-MM-DD or an ISO datetime (YYYY-MM-DDTHH:MM)'')))))"

text \<open>The future check and the stored timestamp \<^verbatim>\<open>ts\<close>.\<close>

definition ts :: "env \<Rightarrow> order_args \<Rightarrow> error + int" where
  "ts e a =
     (case od_dt e a of
        Inl err \<Rightarrow> Inl err
      | Inr None \<Rightarrow> Inr (utcnow_stamp e)
      | Inr (Some d) \<Rightarrow>
          (case utcoffset d of
             Some _ \<Rightarrow> Inl TypeError
           | None \<Rightarrow>
               if clock_val d > utcnow_check e
               then Inl (ValueError ''order_date cannot be in the future'')
               else Inr (replace_microsecond_0 (clock_val d))))"

subsection \<open>Stock\<close>

definition insert_movement ::
  "db \<Rightarrow> string \<Rightarrow> int \<Rightarrow> real \<Rightarrow> string \<Rightarrow> int \<Rightarrow> int option \<Rightarrow> db" where
  "insert_movement d kind ref_id delta reason stamp user_id =
     d\<lparr>movements := movements d @
          [\<lparr>m_id = next_id (map m_id (movements d)), m_kind = kind, m_ref_id = ref_id,
            m_delta = delta, m_reason = reason, m_timestamp = stamp, m_user_id = user_id\<rparr>]\<rparr>"

text \<open>
  The quantity a \<^verbatim>\<open>SELECT quantity\<close> reads for a source or for a product's inventory,
  a missing row counting as 0 (\<^verbatim>\<open>float(row[0]) if row is not None else 0.0\<close>).
\<close>

definition source_quantity :: "db \<Rightarrow> int \<Rightarrow> real" where
  "source_quantity d sid =
     (case find (\<lambda>r. s_id r = sid) (sources d) of Some r \<Rightarrow> s_quantity r | None \<Rightarrow> 0)"

definition inventory_quantity :: "db \<Rightarrow> int \<Rightarrow> real" where
  "inventory_quantity d pid =
     (case find (\<lambda>r. i_product_id r = pid) (inventory d) of Some r \<Rightarrow> i_quantity r | None \<Rightarrow> 0)"

text \<open>Writing \<open>new_q\<close> to the inventory row of a product: INSERT when the SELECT found no row, UPDATE otherwise.\<close>

definition write_inventory :: "db \<Rightarrow> int \<Rightarrow> real \<Rightarrow> int \<Rightarrow> db" where
  "write_inventory d pid new_q stamp =
     (case find (\<lambda>r. i_product_id r = pid) (inventory d) of
        None \<Rightarrow>
          d\<lparr>inventory := inventory d @
               [\<lparr>i_id = next_id (map i_id (inventory d)), i_product_id = pid,
                 i_quantity = new_q, i_last_updated = stamp\<rparr>]\<rparr>
      | Some _ \<Rightarrow>
          d\<lparr>inventory := map (\<lambda>x. if i_product_id x = pid
                                    then x\<lparr>i_quantity := new_q, i_last_updated := stamp\<rparr> else x)
                               (inventory d)\<rparr>)"

definition draw_stock :: "env \<Rightarrow> db \<Rightarrow> order_args \<Rightarrow> product_source option \<Rightarrow> error + db" where
  "draw_stock e d a mapping =
     (case mapping of
        Some m \<Rightarrow>
          let required = fl (quantity a * ps_factor m);
              cur_q = source_quantity d (ps_source_id m);
              new_q = cur_q - required
          in if new_q < 0 then Inl (ValueError ''insufficient stock for this order'')
             else Inr (insert_movement
                    (d\<lparr>sources := map (\<lambda>x. if s_id x = ps_source_id m
                                              then x\<lparr>s_quantity := new_q, s_last_updated := utcnow_ts e\<rparr>
                                              else x) (sources d)\<rparr>)
                    ''source'' (ps_source_id m) (- required)
                    (''order:'' @ str_int (product_id a)) (utcnow_ts e) (created_by a))
      | None \<Rightarrow>
          let cur_q = inventory_quantity d (product_id a);
              new_q = cur_q - quantity a
          in if new_q < 0 then Inl (ValueError ''insufficient stock for this order'')
             else Inr (insert_movement
                    (write_inventory d (product_id a) new_q (utcnow_ts e))
                    ''inventory'' (product_id a) (- quantity a)
                    (''order:'' @ str_int (product_id a)) (utcnow_ts e) (created_by a)))"

subsection \<open>Reusable bottles\<close>

text \<open>
  The bottle product: the one named after the mapping's factor, else the first product
  whose name matches \<^verbatim>\<open>%Empty%\<close>.
\<close>

definition find_bottle_pid :: "db \<Rightarrow> product_source option \<Rightarrow> int option" where
  "find_bottle_pid d mapping =
     (let named =
        (case mapping of
           None \<Rightarrow> None
         | Some m \<Rightarrow>
             map_option p_id
               (find (\<lambda>p. p_name p = ''Empty '' @ str_int (py_int (ps_factor m)) @ ''L bottle'')
                  (products d)))
      in case named of
           Some b \<Rightarrow> Some b
         | None \<Rightarrow> map_option p_id (find (\<lambda>p. like_Empty (p_name p)) (products d)))"

definition bottles_to_consume :: "db \<Rightarrow> order_args \<Rightarrow> product_source option \<Rightarrow> error + int option" where
  "bottles_to_consume d a mapping =
     (case bottles_used a of
        Some b \<Rightarrow>
          if b < 0 then Inl (ValueError ''bottles_used cannot be negative'') else Inr (Some b)
      | None \<Rightarrow>
          if use_bottle a then
            (case find_bottle_pid d mapping of
               Some _ \<Rightarrow> Inr (Some (bottles_of_quantity (quantity a)))
             | None \<Rightarrow> Inr None)
          else Inr None)"

text \<open>
  The decrement of the bottle inventory. Where the count was derived, the source reuses
  the \<^verbatim>\<open>bottle_pid\<close> it found while deriving it; where the count was given, it runs
  the same lookup here. The products table is not written in between, so both are
  \<^term>\<open>find_bottle_pid\<close> on the current state. The count is converted to a float for
  the subtraction; its negation is bound as an int when the movement is inserted, and
  the \<^verbatim>\<open>REAL\<close> column \<^verbatim>\<open>delta\<close> stores that int as the nearest float.
\<close>

definition consume_bottles ::
  "env \<Rightarrow> db \<Rightarrow> order_args \<Rightarrow> product_source option \<Rightarrow> int option \<Rightarrow> error + db" where
  "consume_bottles e d a mapping btc =
     (case btc of
        None \<Rightarrow> Inr d
      | Some n \<Rightarrow>
          if n > 0 then
            (case find_bottle_pid d mapping of
               None \<Rightarrow> Inr d
             | Some bottle_pid \<Rightarrow>
                 (case py_float n of
                    Inl err \<Rightarrow> Inl err
                  | Inr c \<Rightarrow>
                      let cur_q = inventory_quantity d bottle_pid;
                          new_bq = cur_q - c
                      in if new_bq < 0
                         then Inl (ValueError ''insufficient bottle stock for this order'')
                         else if \<not> sqlite_int (- n) then Inl OverflowError
                         else Inr (insert_movement
                                (write_inventory d bottle_pid new_bq (utcnow_ts e))
                                ''inventory'' bottle_pid (- c)
                                (''order_bottle:'' @ str_int (product_id a)) (utcnow_ts e)
                                (created_by a))))
          else Inr d)"

subsection \<open>The transaction and its commit or rollback\<close>

text \<open>The row of the sale; its bottle count is bound as an int when the row is inserted.\<close>

definition insert_sale :: "db \<Rightarrow> product \<Rightarrow> order_args \<Rightarrow> real \<Rightarrow> int \<Rightarrow> int option \<Rightarrow> sale" where
  "insert_sale d p a tot stamp btc =
     \<lparr>sale_id = next_id (map sale_id (sales d)), sale_product_id = product_id a,
      sale_quantity = quantity a, sale_unit_price = p_unit_price p,
      sale_total = tot, sale_payment_method = payment_method a,
      sale_timestamp = stamp, sale_created_by = created_by a,
      sale_bottles_used = (case btc of Some n \<Rightarrow> n | None \<Rightarrow> 0),
      sale_bottle_price = (if use_bottle a then bottle_price a else 0),
      sale_client_timestamp = client_timestamp a\<rparr>"

text \<open>
  The body of the \<^verbatim>\<open>try\<close> block, from \<^verbatim>\<open>BEGIN\<close> on: the state of the open
  transaction where the block is left, and either the exception raised or the sale
  returned (the inserted row and the product's name).
\<close>

definition order_txn :: "env \<Rightarrow> db \<Rightarrow> order_args \<Rightarrow> db \<times> (error + sale \<times> string)" where
  "order_txn e d a =
     (case lookup_product d (product_id a) of
        Inl err \<Rightarrow> (d, Inl err)
      | Inr p \<Rightarrow>
     (case order_total p a of
        Inl err \<Rightarrow> (d, Inl err)
      | Inr tot \<Rightarrow>
     (case ts e a of
        Inl err \<Rightarrow> (d, Inl err)
      | Inr stamp \<Rightarrow>
     (let mapping = find (\<lambda>m. ps_product_id m = product_id a) (product_sources d) in
      case draw_stock e d a mapping of
        Inl err \<Rightarrow> (d, Inl err)
      | Inr d1 \<Rightarrow>
     (case bottles_to_consume d1 a mapping of
        Inl err \<Rightarrow> (d1, Inl err)
      | Inr btc \<Rightarrow>
     (case consume_bottles e d1 a mapping btc of
        Inl err \<Rightarrow> (d1, Inl err)
      | Inr d2 \<Rightarrow>
          if \<not> sqlite_int (case btc of Some n \<Rightarrow> n | None \<Rightarrow> 0) then (d2, Inl OverflowError)
          else let s = insert_sale d2 p a tot stamp btc
               in (d2\<lparr>sales := sales d2 @ [s]\<rparr>, Inr (s, p_name p))))))))"

text \<open>
  \<^verbatim>\<open>record_order\<close> on the committed store: the quantity check comes before the
  connection is opened; an exception in the block rolls the transaction back, so the
  committed store is the one before the call; otherwise the transaction is committed.
\<close>

definition record_order :: "env \<Rightarrow> db \<Rightarrow> order_args \<Rightarrow> db \<times> (error + sale \<times> string)" where
  "record_order e d a =
     (if quantity a \<le> 0 then (d, Inl (ValueError ''quantity must be > 0''))
      else (case order_txn e d a of
              (w, Inl err) \<Rightarrow> (d, Inl err)
            | (w, Inr r) \<Rightarrow> (w, Inr r)))"

section \<open>Example stores and requests\<close>

text \<open>
  The store of the specification's scenario: product ``5L water'' priced 40, drawing 5
  units per item from ``Main Tank'', which holds 9000.
\<close>

definition tank_store :: db where
  "tank_store =
     \<lparr>products = [\<lparr>p_id = 1, p_name = ''5L water'', p_unit_price = 40\<rparr>],
      sources = [\<lparr>s_id = 1, s_name = ''Main Tank'', s_unit = ''L'', s_quantity = 9000,
                  s_last_updated = 0\<rparr>],
      product_sources = [\<lparr>ps_product_id = 1, ps_source_id = 1, ps_factor = 5\<rparr>],
      inventory = [], movements = [], sales = []\<rparr>"

text \<open>
  The scenario store with half a unit left in the tank, and the double nearest to one
  tenth (\<^verbatim>\<open>(0.1).as_integer_ratio()\<close>).
\<close>

definition half_tank :: db where
  "half_tank =
     tank_store\<lparr>sources := [\<lparr>s_id = 1, s_name = ''Main Tank'', s_unit = ''L'',
                              s_quantity = 1 / 2, s_last_updated = 0\<rparr>]\<rparr>"

definition tenth :: real where
  "tenth = 3602879701896397 / 36028797018963968"

text \<open>
  A store that also has the seeded bottle product for the 5-litre size (120 in stock) and
  a product without a source mapping, ``Cup'', with 5 in its own inventory.
\<close>

definition shop :: db where
  "shop =
     \<lparr>products = [\<lparr>p_id = 1, p_name = ''5L water'', p_unit_price = 40\<rparr>,
                   \<lparr>p_id = 2, p_name = ''Empty 5L bottle'', p_unit_price = 0\<rparr>,
                   \<lparr>p_id = 3, p_name = ''Cup'', p_unit_price = 10\<rparr>],
      sources = [\<lparr>s_id = 1, s_name = ''Main Tank'', s_unit = ''L'', s_quantity = 9000,
                  s_last_updated = 0\<rparr>],
      product_sources = [\<lparr>ps_product_id = 1, ps_source_id = 1, ps_factor = 5\<rparr>],
      inventory = [\<lparr>i_id = 1, i_product_id = 2, i_quantity = 120, i_last_updated = 0\<rparr>,
                   \<lparr>i_id = 2, i_product_id = 3, i_quantity = 5, i_last_updated = 0\<rparr>],
      movements = [], sales = []\<rparr>"

text \<open>A request with the defaults of \<^verbatim>\<open>record_order\<close> for everything but product and quantity.\<close>

definition order_of :: "int \<Rightarrow> real \<Rightarrow> order_args" where
  "order_of pid q =
     \<lparr>product_id = pid, quantity = q, payment_method = ''Cash'', order_date = None,
      created_by = None, use_bottle = False, bottles_used = None, bottle_price = 0,
      client_timestamp = None\<rparr>"

text \<open>
  A server whose clock reads 2025-06-01T12:00:00 at every place, with the values Python's
  parsers give on the strings used in the examples (day numbers and microseconds count
  from 0001-01-01): an offset of +03:00 is 10800000000, one of +05:00 is 18000000000;
  every other string is rejected here.
\<close>

definition iso_values :: "(string \<times> pdt) list" where
  "iso_values =
     [(''2025-05-31T10:00:00'', \<lparr>clock_val = 63884282400000000, utcoffset = None\<rparr>),
      (''2025-05-31T10:00:00+03:00'', \<lparr>clock_val = 63884282400000000, utcoffset = Some 10800000000\<rparr>),
      (''2024-01-01'', \<lparr>clock_val = 63839664000000000, utcoffset = None\<rparr>),
      (''2999-01-01T00:00:00'', \<lparr>clock_val = 94607740800000000, utcoffset = None\<rparr>),
      (''2999-01-01T00:00:00+00:00'', \<lparr>clock_val = 94607740800000000, utcoffset = Some 0\<rparr>),
      (''0001-01-01T00:00:00+05:00'', \<lparr>clock_val = 0, utcoffset = Some 18000000000\<rparr>)]"

definition server :: env where
  "server =
     \<lparr>fromisoformat = map_of iso_values,
      strptime_ymd = map_of [(''2024-1-5'', 738889)],
      utcnow_combine = 63884376000000000, utcnow_check = 63884376000000000,
      utcnow_stamp = 63884376000000000, utcnow_ts = 63884376000000000\<rparr>"

text \<open>Every stored quantity of both pools is non-negative.\<close>

definition nonneg :: "db \<Rightarrow> bool" where
  "nonneg d = (list_all (\<lambda>r. 0 \<le> s_quantity r) (sources d) \<and>
               list_all (\<lambda>r. 0 \<le> i_quantity r) (inventory d))"

section \<open>Rounding and conversion of small integers\<close>

lemma round_half_even_of_int [simp]: "round_half_even (of_int m) = m"
  by (simp add: round_half_even_def)

lemma fl_0 [simp]: "fl 0 = 0"
  by (simp add: fl_def)

lemma floor_log2_small:
  assumes "n \<noteq> 0" and "\<bar>n\<bar> < 2 ^ 53"
  shows "0 \<le> \<lfloor>log 2 \<bar>real_of_int n\<bar>\<rfloor>" "\<lfloor>log 2 \<bar>real_of_int n\<bar>\<rfloor> \<le> 52"
proof -
  from assms(1) have one: "1 \<le> \<bar>real_of_int n\<bar>"
    by (metis abs_of_nonneg abs_zero int_one_le_iff_zero_less of_int_1_le_iff of_int_abs
        zero_less_abs_iff abs_ge_zero)
  then show "0 \<le> \<lfloor>log 2 \<bar>real_of_int n\<bar>\<rfloor>" by simp
  from assms(2) have "\<bar>real_of_int n\<bar> < 2 ^ 53"
    by (metis of_int_abs of_int_less_numeral_power_cancel_iff)
  then have "\<bar>real_of_int n\<bar> < 2 powr 53" by simp
  with one have "log 2 \<bar>real_of_int n\<bar> < 53"
    by (subst log_less_iff) auto
  then show "\<lfloor>log 2 \<bar>real_of_int n\<bar>\<rfloor> \<le> 52" by linarith
qed

text \<open>An integer below \<open>2 ^ 53\<close> in size is a double.\<close>

lemma fl_of_int:
  assumes "\<bar>n\<bar> < 2 ^ 53"
  shows "fl (of_int n) = of_int n"
proof (cases "n = 0")
  case True
  then show ?thesis by simp
next
  case False
  define L where "L = \<lfloor>log 2 \<bar>real_of_int n\<bar>\<rfloor>"
  from floor_log2_small [OF False assms] have L: "0 \<le> L" "L \<le> 52" by (simp_all add: L_def)
  then have u: "ulp_exp (of_int n) = L - 52" by (simp add: ulp_exp_def L_def)
  define k where "k = nat (52 - L)"
  from L have pk: "(2::real) powi (L - 52) = 1 / 2 ^ k"
    by (simp add: power_int_def k_def field_simps)
  have "real_of_int n / (1 / 2 ^ k) = of_int (n * 2 ^ k)" by simp
  then have "round_half_even (real_of_int n / (1 / 2 ^ k)) = n * 2 ^ k"
    by (metis round_half_even_of_int)
  with False show ?thesis by (simp add: fl_def u pk)
qed

lemma py_float_small:
  assumes "\<bar>n\<bar> < 2 ^ 53"
  shows "py_float n = Inr (of_int n)"
proof -
  from assms have "\<bar>real_of_int n\<bar> < 2 ^ 53"
    by (metis of_int_abs of_int_less_numeral_power_cancel_iff)
  also have "(2::real) ^ 53 \<le> 2 ^ 1024" by (rule power_increasing) simp_all
  finally have "\<not> 2 ^ 1024 \<le> \<bar>real_of_int n\<bar>" by simp
  then show ?thesis by (simp add: py_float_def fl_of_int [OF assms])
qed

lemma fl_numeral: "(numeral w :: int) < 2 ^ 53 \<Longrightarrow> fl (numeral w) = numeral w"
  using fl_of_int [of "numeral w"] by simp

lemma py_float_numeral: "(numeral w :: int) < 2 ^ 53 \<Longrightarrow> py_float (numeral w) = Inr (numeral w)"
  using py_float_small [of "numeral w"] by simp

text \<open>The double nearest to one tenth, times 5, rounds to one half.\<close>

lemma fl_tenth_times_5: "fl (tenth * 5) = 1 / 2"
proof -
  let ?x = "18014398509481985 / 36028797018963968 :: real"
  have "\<lfloor>log 2 \<bar>?x\<bar>\<rfloor> = - 1"
    by (subst floor_log_eq_powr_iff) (simp_all add: powr_minus)
  then have u: "ulp_exp ?x = - 53" by (simp add: ulp_exp_def)
  have "round_half_even (?x / 2 powi (- 53)) = 4503599627370496"
    by (simp add: round_half_even_def power_int_minus)
  then have "fl ?x = 1 / 2" by (simp add: fl_def u power_int_minus)
  then show ?thesis by (simp add: tenth_def)
qed

section \<open>Lookups after a write\<close>

lemma find_map_if:
  assumes "\<And>x. key (f x) = key x"
  shows "find (\<lambda>r. key r = k') (map (\<lambda>x. if key x = k then f x else x) xs) =
         (if k' = k then map_option f (find (\<lambda>r. key r = k) xs) else find (\<lambda>r. key r = k') xs)"
  using assms by (induction xs) auto

lemma find_append:
  "find P (xs @ ys) = (case find P xs of Some x \<Rightarrow> Some x | None \<Rightarrow> find P ys)"
  by (induction xs) auto

lemma shop_quantities:
  "inventory_quantity shop 3 = 5" "inventory_quantity shop 7 = 0"
  "source_quantity shop 1 = 9000" "source_quantity shop 7 = 0"
  by (simp_all add: shop_def inventory_quantity_def source_quantity_def)

section \<open>Adjusting a quantity by a delta\<close>







section \<open>Orders with a quantity that is not positive\<close>

text \<open>
  Claim C9. An order with quantity \<open>\<le> 0\<close> fails with
  \<^verbatim>\<open>ValueError('quantity must be > 0')\<close> (InvalidQuantity); the store is unchanged,
  and the answer is the same whatever the store holds: the check comes before the
  connection is opened, so no product, source or inventory row is read.
\<close>

theorem record_order_invalid_quantity:
  "quantity a \<le> 0 \<Longrightarrow>
     record_order e d a = (d, Inl (ValueError ''quantity must be > 0'')) \<and>
     snd (record_order e d' a) = snd (record_order e d a)"
  by (simp add: record_order_def)

theorem record_order_invalid_quantity_witness:
  "quantity (order_of 1 0) \<le> 0 \<and>
   record_order server shop (order_of 1 0) = (shop, Inl (ValueError ''quantity must be > 0'')) \<and>
   snd (record_order server tank_store (order_of 1 0)) = snd (record_order server shop (order_of 1 0))"
  using record_order_invalid_quantity [of "order_of 1 0" server shop tank_store]
  by (simp add: order_of_def)

section \<open>What the steps of an order leave behind\<close>

lemma insert_movement_fields [simp]:
  "products (insert_movement d k r dl rs t u) = products d"
  "sources (insert_movement d k r dl rs t u) = sources d"
  "product_sources (insert_movement d k r dl rs t u) = product_sources d"
  "inventory (insert_movement d k r dl rs t u) = inventory d"
  "sales (insert_movement d k r dl rs t u) = sales d"
  by (simp_all add: insert_movement_def)

lemma insert_movement_quantity [simp]:
  "inventory_quantity (insert_movement d k r dl rs t u) p = inventory_quantity d p"
  "source_quantity (insert_movement d k r dl rs t u) p = source_quantity d p"
  by (simp_all add: inventory_quantity_def source_quantity_def)

lemma write_inventory_fields [simp]:
  "products (write_inventory d pid q t) = products d"
  "sources (write_inventory d pid q t) = sources d"
  "product_sources (write_inventory d pid q t) = product_sources d"
  "movements (write_inventory d pid q t) = movements d"
  "sales (write_inventory d pid q t) = sales d"
  by (simp_all add: write_inventory_def split: option.splits)

lemma inventory_quantity_write [simp]:
  "inventory_quantity (write_inventory d pid q t) p = (if p = pid then q else inventory_quantity d p)"
  by (auto simp: write_inventory_def inventory_quantity_def find_append
        find_map_if [where key = i_product_id] split: option.splits)

lemma find_bottle_pid_cong:
  "products d' = products d \<Longrightarrow> find_bottle_pid d' m = find_bottle_pid d m"
  by (simp add: find_bottle_pid_def cong: option.case_cong)

lemma draw_stock_mapped:
  assumes "draw_stock e d a (Some m) = Inr d1"
  shows "d1 = insert_movement
           (d\<lparr>sources := map (\<lambda>x. if s_id x = ps_source_id m
                 then x\<lparr>s_quantity := source_quantity d (ps_source_id m) - fl (quantity a * ps_factor m),
                        s_last_updated := utcnow_ts e\<rparr> else x) (sources d)\<rparr>)
           ''source'' (ps_source_id m) (- fl (quantity a * ps_factor m))
           (''order:'' @ str_int (product_id a)) (utcnow_ts e) (created_by a)"
    and "0 \<le> source_quantity d (ps_source_id m) - fl (quantity a * ps_factor m)"
  using assms by (auto simp: draw_stock_def Let_def split: if_splits)

lemma draw_stock_unmapped:
  assumes "draw_stock e d a None = Inr d1"
  shows "d1 = insert_movement
           (write_inventory d (product_id a) (inventory_quantity d (product_id a) - quantity a) (utcnow_ts e))
           ''inventory'' (product_id a) (- quantity a)
           (''order:'' @ str_int (product_id a)) (utcnow_ts e) (created_by a)"
    and "0 \<le> inventory_quantity d (product_id a) - quantity a"
  using assms by (auto simp: draw_stock_def Let_def split: if_splits)

lemma consume_bottles_cases:
  assumes "consume_bottles e d1 a m btc = Inr d2"
  shows "d2 = d1 \<or>
         (\<exists>n bp c. btc = Some n \<and> 0 < n \<and> find_bottle_pid d1 m = Some bp \<and>
                 py_float n = Inr c \<and> 0 \<le> inventory_quantity d1 bp - c \<and> sqlite_int (- n) \<and>
                 d2 = insert_movement
                        (write_inventory d1 bp (inventory_quantity d1 bp - c) (utcnow_ts e))
                        ''inventory'' bp (- c)
                        (''order_bottle:'' @ str_int (product_id a)) (utcnow_ts e) (created_by a))"
  using assms
  by (auto simp: consume_bottles_def Let_def split: option.splits if_splits sum.splits)

lemma record_order_Inr:
  assumes "record_order e d a = (d', Inr (s, n))"
  obtains p tot stamp d1 btc d2 where
    "0 < quantity a" "lookup_product d (product_id a) = Inr p" "order_total p a = Inr tot"
    "ts e a = Inr stamp"
    "draw_stock e d a (find (\<lambda>m. ps_product_id m = product_id a) (product_sources d)) = Inr d1"
    "bottles_to_consume d1 a (find (\<lambda>m. ps_product_id m = product_id a) (product_sources d)) = Inr btc"
    "consume_bottles e d1 a (find (\<lambda>m. ps_product_id m = product_id a) (product_sources d)) btc = Inr d2"
    "sqlite_int (case btc of Some k \<Rightarrow> k | None \<Rightarrow> 0)"
    "s = insert_sale d2 p a tot stamp btc" "d' = d2\<lparr>sales := sales d2 @ [s]\<rparr>" "n = p_name p"
  using assms
  by (auto simp: record_order_def order_txn_def Let_def split: if_splits sum.splits prod.splits)

lemma record_order_Inl:
  "snd (record_order e d a) = Inl err \<Longrightarrow> fst (record_order e d a) = d"
  by (auto simp: record_order_def split: if_splits sum.splits prod.splits)


lemma insert_movement_movements:
  "movements (insert_movement d k r dl rs t u) =
     movements d @ [\<lparr>m_id = next_id (map m_id (movements d)), m_kind = k, m_ref_id = r,
                     m_delta = dl, m_reason = rs, m_timestamp = t, m_user_id = u\<rparr>]"
  by (simp add: insert_movement_def)

lemma sales_update_quantity [simp]:
  "inventory_quantity (d\<lparr>sales := x\<rparr>) p = inventory_quantity d p"
  "source_quantity (d\<lparr>sales := x\<rparr>) p = source_quantity d p"
  by (simp_all add: inventory_quantity_def source_quantity_def)

lemma sources_update_quantity [simp]:
  "inventory_quantity (d\<lparr>sources := x\<rparr>) p = inventory_quantity d p"
  by (simp add: inventory_quantity_def)

lemma record_order_success:
  assumes "record_order e d a = (d', Inr (s, n))"
  shows "sales d' = sales d @ [s] \<and> products d' = products d \<and>
         product_sources d' = product_sources d \<and>
         (\<exists>mv rest. movements d' = movements d @ mv # rest \<and>
            m_reason mv = ''order:'' @ str_int (product_id a) \<and>
            (case find (\<lambda>m. ps_product_id m = product_id a) (product_sources d) of
               Some m \<Rightarrow>
                 m_kind mv = ''source'' \<and> m_ref_id mv = ps_source_id m \<and>
                 m_delta mv = - fl (quantity a * ps_factor m) \<and>
                 sources d' = map (\<lambda>x. if s_id x = ps_source_id m
                    then x\<lparr>s_quantity := source_quantity d (ps_source_id m) - fl (quantity a * ps_factor m),
                           s_last_updated := utcnow_ts e\<rparr> else x) (sources d)
             | None \<Rightarrow>
                 m_kind mv = ''inventory'' \<and> m_ref_id mv = product_id a \<and>
                 m_delta mv = - quantity a \<and> sources d' = sources d) \<and>
            (\<forall>p. inventory_quantity d' p = inventory_quantity d p +
               sum_list (map m_delta
                 (filter (\<lambda>x. m_kind x = ''inventory'' \<and> m_ref_id x = p) (mv # rest)))))"
proof -
  let ?mp = "find (\<lambda>m. ps_product_id m = product_id a) (product_sources d)"
  from assms obtain p stamp d1 btc d2 where
    "lookup_product d (product_id a) = Inr p" "ts e a = Inr stamp" and
    draw: "draw_stock e d a ?mp = Inr d1" and
    cons: "consume_bottles e d1 a ?mp btc = Inr d2" and
    d': "d' = d2\<lparr>sales := sales d2 @ [s]\<rparr>"
    by (rule record_order_Inr)
  from consume_bottles_cases [OF cons]
  consider (same) "d2 = d1"
    | (bottle) c bp where
        "d2 = insert_movement
               (write_inventory d1 bp (inventory_quantity d1 bp - c) (utcnow_ts e))
               ''inventory'' bp (- c)
               (''order_bottle:'' @ str_int (product_id a)) (utcnow_ts e) (created_by a)"
    by blast
  then show ?thesis
  proof cases
    case same
    show ?thesis
    proof (cases ?mp)
      case None
      from draw_stock_unmapped(1) [OF draw [unfolded None]] show ?thesis
        unfolding d' same None
        by (simp add: insert_movement_movements)
    next
      case (Some m)
      from draw_stock_mapped(1) [OF draw [unfolded Some]] show ?thesis
        unfolding d' same Some
        by (simp add: insert_movement_movements)
    qed
  next
    case bottle
    show ?thesis
    proof (cases ?mp)
      case None
      from draw_stock_unmapped(1) [OF draw [unfolded None]] show ?thesis
        unfolding d' bottle None
        by (simp add: insert_movement_movements)
    next
      case (Some m)
      from draw_stock_mapped(1) [OF draw [unfolded Some]] show ?thesis
        unfolding d' bottle Some
        by (simp add: insert_movement_movements)
    qed
  qed
qed


lemmas run_defs =
  record_order_def order_txn_def lookup_product_def sqlite_int_def fl_numeral py_float_numeral ts_def od_dt_def od_dt_client_def
  draw_stock_def bottles_to_consume_def consume_bottles_def find_bottle_pid_def
  insert_sale_def insert_movement_def write_inventory_def order_total_def next_id_def
  str_int_def source_quantity_def inventory_quantity_def Let_def py_int_def like_Empty_def
  ascii_lower_def bottles_of_quantity_def is_integer_def astimezone_utc_def dt_end_def
  day_us_def combine_def replace_microsecond_0_def
  server_def shop_def tank_store_def order_of_def iso_values_def


text \<open>
  Claim C1. An order attempt is all or nothing. If \<^verbatim>\<open>record_order\<close> raises, at
  whatever step, the committed store is exactly the store before the call: no sale row,
  no movement row and no quantity has changed. If it returns a sale, the committed store
  holds that sale as the one new row of \<^verbatim>\<open>sales\<close> together with the stock movement
  of the order (kind, reference, delta and reason of the pool drawn from) and the
  decrement itself: for a mapped product every row of the mapped source holds the
  quantity read minus quantity times factor (the product as a float); and for every
  product the inventory quantity has changed by exactly the sum of the deltas of the
  new inventory movements for it.
\<close>

theorem record_order_atomic:
  "(snd (record_order e d a) = Inl err \<longrightarrow> fst (record_order e d a) = d) \<and>
   (record_order e d a = (d', Inr (s, n)) \<longrightarrow>
      sales d' = sales d @ [s] \<and> products d' = products d \<and>
      product_sources d' = product_sources d \<and>
      (\<exists>mv rest. movements d' = movements d @ mv # rest \<and>
         m_reason mv = ''order:'' @ str_int (product_id a) \<and>
         (case find (\<lambda>m. ps_product_id m = product_id a) (product_sources d) of
            Some m \<Rightarrow>
              m_kind mv = ''source'' \<and> m_ref_id mv = ps_source_id m \<and>
              m_delta mv = - fl (quantity a * ps_factor m) \<and>
              sources d' = map (\<lambda>x. if s_id x = ps_source_id m
                 then x\<lparr>s_quantity := source_quantity d (ps_source_id m) - fl (quantity a * ps_factor m),
                        s_last_updated := utcnow_ts e\<rparr> else x) (sources d)
          | None \<Rightarrow>
              m_kind mv = ''inventory'' \<and> m_ref_id mv = product_id a \<and>
              m_delta mv = - quantity a \<and> sources d' = sources d) \<and>
         (\<forall>p. inventory_quantity d' p = inventory_quantity d p +
            sum_list (map m_delta
              (filter (\<lambda>x. m_kind x = ''inventory'' \<and> m_ref_id x = p) (mv # rest))))))"
  using record_order_Inl [of e d a err] record_order_success [of e d a d' s n]
  by blast

lemma rollback_discards_writes:
  "fst (order_txn server shop ((order_of 1 2)\<lparr>bottles_used := Some 500\<rparr>)) \<noteq> shop \<and>
   map m_reason (movements (fst (order_txn server shop ((order_of 1 2)\<lparr>bottles_used := Some 500\<rparr>))))
     = [''order:1''] \<and>
   record_order server shop ((order_of 1 2)\<lparr>bottles_used := Some 500\<rparr>) =
     (shop, Inl (ValueError ''insufficient bottle stock for this order''))"
  by (simp add: run_defs)

theorem record_order_atomic_witness:
  "record_order server shop ((order_of 1 2)\<lparr>bottles_used := Some 500\<rparr>) =
     (shop, Inl (ValueError ''insufficient bottle stock for this order'')) \<and>
   (\<exists>d' s n. record_order server shop (order_of 3 5) = (d', Inr (s, n)) \<and>
      sales d' = sales shop @ [s] \<and>
      (\<exists>mv rest. movements d' = movements shop @ mv # rest \<and> m_kind mv = ''inventory'' \<and>
         m_ref_id mv = 3 \<and> m_delta mv = - 5 \<and>
         inventory_quantity d' 3 = inventory_quantity shop 3 +
            sum_list (map m_delta
              (filter (\<lambda>x. m_kind x = ''inventory'' \<and> m_ref_id x = 3) (mv # rest)))))"
proof -
  let ?short = "(order_of 1 2)\<lparr>bottles_used := Some 500\<rparr>"
  have fails: "snd (record_order server shop ?short) =
      Inl (ValueError ''insufficient bottle stock for this order'')"
    by (simp add: run_defs)
  obtain d' s n where ok: "record_order server shop (order_of 3 5) = (d', Inr (s, n))"
    by (simp add: run_defs)
  have unmapped: "find (\<lambda>m. ps_product_id m = product_id (order_of 3 5)) (product_sources shop) = None"
    by (simp add: shop_def order_of_def)
  from record_order_atomic [of server shop ?short
        "ValueError ''insufficient bottle stock for this order''"] fails
  have "fst (record_order server shop ?short) = shop" by blast
  with fails have first: "record_order server shop ?short =
      (shop, Inl (ValueError ''insufficient bottle stock for this order''))"
    by (metis prod.collapse)
  from record_order_atomic [of server shop "order_of 3 5" _ d' s n] ok unmapped
  have "sales d' = sales shop @ [s] \<and>
      (\<exists>mv rest. movements d' = movements shop @ mv # rest \<and> m_kind mv = ''inventory'' \<and>
         m_ref_id mv = 3 \<and> m_delta mv = - 5 \<and>
         inventory_quantity d' 3 = inventory_quantity shop 3 +
            sum_list (map m_delta
              (filter (\<lambda>x. m_kind x = ''inventory'' \<and> m_ref_id x = 3) (mv # rest))))"
    by (simp add: order_of_def del: filter.simps) blast
  with ok first show ?thesis by blast
qed

section \<open>The scenario order and the draw from a mapped source\<close>





section \<open>Orders that the stock cannot cover\<close>

lemma draw_stock_insufficient:
  assumes "(\<exists>m. mp = Some m \<and> source_quantity d (ps_source_id m) - fl (quantity a * ps_factor m) < 0) \<or>
           (mp = None \<and> inventory_quantity d (product_id a) - quantity a < 0)"
  shows "draw_stock e d a mp = Inl (ValueError ''insufficient stock for this order'')"
  using assms by (auto simp: draw_stock_def Let_def)

lemma record_order_draw_fails:
  assumes "draw_stock e d a (find (\<lambda>m. ps_product_id m = product_id a) (product_sources d)) = Inl err"
  shows "\<exists>err'. record_order e d a = (d, Inl err')"
    and "0 < quantity a \<Longrightarrow> lookup_product d (product_id a) = Inr p \<Longrightarrow>
         order_total p a = Inr tot \<Longrightarrow> ts e a = Inr stamp \<Longrightarrow>
         record_order e d a = (d, Inl err)"
  using assms
  by (auto simp: record_order_def order_txn_def Let_def split: sum.splits)

text \<open>
  The claim as the specification words it, with quantity times factor the exact product,
  fails where the product rounds: with one half left in the tank and factor 5, an order
  of the double nearest to one tenth needs more than one half, yet the program computes
  the product as exactly one half, commits the order and leaves the tank at 0.
\<close>

theorem rounded_product_commits:
  "source_quantity half_tank 1 - tenth * 5 < 0 \<and>
   record_order server half_tank (order_of 1 tenth) =
     (half_tank
        \<lparr>sources := [\<lparr>s_id = 1, s_name = ''Main Tank'', s_unit = ''L'', s_quantity = 0,
                      s_last_updated = utcnow_ts server\<rparr>],
         movements := [\<lparr>m_id = 1, m_kind = ''source'', m_ref_id = 1, m_delta = - (1 / 2),
                        m_reason = ''order:1'', m_timestamp = utcnow_ts server,
                        m_user_id = None\<rparr>],
         sales := [\<lparr>sale_id = 1, sale_product_id = 1, sale_quantity = tenth,
                    sale_unit_price = 40, sale_total = 40 * tenth,
                    sale_payment_method = ''Cash'', sale_timestamp = utcnow_stamp server,
                    sale_created_by = None, sale_bottles_used = 0, sale_bottle_price = 0,
                    sale_client_timestamp = None\<rparr>]\<rparr>,
      Inr (\<lparr>sale_id = 1, sale_product_id = 1, sale_quantity = tenth,
             sale_unit_price = 40, sale_total = 40 * tenth,
             sale_payment_method = ''Cash'', sale_timestamp = utcnow_stamp server,
             sale_created_by = None, sale_bottles_used = 0, sale_bottle_price = 0,
             sale_client_timestamp = None\<rparr>, ''5L water''))"
proof -
  have "source_quantity half_tank 1 - tenth * 5 < 0"
    by (simp add: half_tank_def tank_store_def source_quantity_def tenth_def)
  moreover have "0 < tenth" by (simp add: tenth_def)
  then have "record_order server half_tank (order_of 1 tenth) =
     (half_tank
        \<lparr>sources := [\<lparr>s_id = 1, s_name = ''Main Tank'', s_unit = ''L'', s_quantity = 0,
                      s_last_updated = utcnow_ts server\<rparr>],
         movements := [\<lparr>m_id = 1, m_kind = ''source'', m_ref_id = 1, m_delta = - (1 / 2),
                        m_reason = ''order:1'', m_timestamp = utcnow_ts server,
                        m_user_id = None\<rparr>],
         sales := [\<lparr>sale_id = 1, sale_product_id = 1, sale_quantity = tenth,
                    sale_unit_price = 40, sale_total = 40 * tenth,
                    sale_payment_method = ''Cash'', sale_timestamp = utcnow_stamp server,
                    sale_created_by = None, sale_bottles_used = 0, sale_bottle_price = 0,
                    sale_client_timestamp = None\<rparr>]\<rparr>,
      Inr (\<lparr>sale_id = 1, sale_product_id = 1, sale_quantity = tenth,
             sale_unit_price = 40, sale_total = 40 * tenth,
             sale_payment_method = ''Cash'', sale_timestamp = utcnow_stamp server,
             sale_created_by = None, sale_bottles_used = 0, sale_bottle_price = 0,
             sale_client_timestamp = None\<rparr>, ''5L water''))"
    by (simp add: record_order_def order_txn_def lookup_product_def sqlite_int_def
          order_total_def ts_def od_dt_def od_dt_client_def draw_stock_def
          bottles_to_consume_def consume_bottles_def insert_sale_def insert_movement_def
          next_id_def str_int_def source_quantity_def Let_def fl_tenth_times_5
          half_tank_def tank_store_def order_of_def server_def)
  ultimately show ?thesis by blast
qed

text \<open>
  Claim C3. Let the stock not cover the order: for a product with a source mapping the
  source's quantity (0 when the source row is missing) minus quantity times factor, the
  product as the program computes it in double precision, is negative; for a product
  without one the inventory quantity (0 when the row is missing) minus the quantity is
  negative. Then \<^verbatim>\<open>record_order\<close> fails and the committed store is the one before
  the call, so the stored quantity is unchanged (not clamped to zero) and no sale row
  exists. The steps run in order, so an order that already fails the quantity check, the
  product lookup, the pricing or the date resolution reports that failure; every order
  that passes them fails with \<^verbatim>\<open>ValueError('insufficient stock for this order')\<close>
  (InsufficientStock).
\<close>

theorem insufficient_stock_rejected:
  "(find (\<lambda>m. ps_product_id m = product_id a) (product_sources d) = Some m \<and>
      source_quantity d (ps_source_id m) - fl (quantity a * ps_factor m) < 0
    \<or> find (\<lambda>m. ps_product_id m = product_id a) (product_sources d) = None \<and>
      inventory_quantity d (product_id a) - quantity a < 0) \<longrightarrow>
   (\<exists>err. record_order e d a = (d, Inl err)) \<and>
   (0 < quantity a \<and> lookup_product d (product_id a) = Inr p \<and> order_total p a = Inr tot \<and>
    ts e a = Inr stamp \<longrightarrow>
      record_order e d a = (d, Inl (ValueError ''insufficient stock for this order'')))"
proof (intro impI)
  let ?mp = "find (\<lambda>m. ps_product_id m = product_id a) (product_sources d)"
  assume "?mp = Some m \<and> source_quantity d (ps_source_id m) - fl (quantity a * ps_factor m) < 0
    \<or> ?mp = None \<and> inventory_quantity d (product_id a) - quantity a < 0"
  then have "draw_stock e d a ?mp = Inl (ValueError ''insufficient stock for this order'')"
    by (intro draw_stock_insufficient) auto
  from record_order_draw_fails [OF this]
  show "(\<exists>err. record_order e d a = (d, Inl err)) \<and>
   (0 < quantity a \<and> lookup_product d (product_id a) = Inr p \<and> order_total p a = Inr tot \<and>
    ts e a = Inr stamp \<longrightarrow>
      record_order e d a = (d, Inl (ValueError ''insufficient stock for this order'')))"
    by blast
qed

lemma tank_after_first_order:
  "source_quantity (fst (record_order server tank_store (order_of 1 2))) 1 = 8990"
  "find (\<lambda>m. ps_product_id m = 1) (product_sources (fst (record_order server tank_store (order_of 1 2))))
     = Some \<lparr>ps_product_id = 1, ps_source_id = 1, ps_factor = 5\<rparr>"
  "lookup_product (fst (record_order server tank_store (order_of 1 2))) 1 =
     Inr \<lparr>p_id = 1, p_name = ''5L water'', p_unit_price = 40\<rparr>"
  by (simp_all add: run_defs)

lemma ts_no_dates: "ts e (order_of pid q) = Inr (utcnow_stamp e)"
  by (simp add: ts_def od_dt_def od_dt_client_def order_of_def)

lemma order_total_plain: "order_total p (order_of pid q) = Inr (p_unit_price p * q)"
  by (simp add: order_total_def order_of_def)

theorem insufficient_stock_rejected_witness:
  "source_quantity (fst (record_order server tank_store (order_of 1 2))) 1 - fl (2000 * 5) < 0 \<and>
   fl (2000 * 5) = 2000 * 5 \<and>
   record_order server (fst (record_order server tank_store (order_of 1 2))) (order_of 1 2000) =
     (fst (record_order server tank_store (order_of 1 2)),
      Inl (ValueError ''insufficient stock for this order'')) \<and>
   source_quantity (fst (record_order server (fst (record_order server tank_store (order_of 1 2)))
                           (order_of 1 2000))) 1 = 8990 \<and>
   inventory_quantity shop 3 - 6 < 0 \<and>
   record_order server shop (order_of 3 6) =
     (shop, Inl (ValueError ''insufficient stock for this order''))"
proof -
  let ?d = "fst (record_order server tank_store (order_of 1 2))"
  have a: "product_id (order_of 1 2000) = 1" "quantity (order_of 1 2000) = 2000"
    "product_id (order_of 3 6) = 3" "quantity (order_of 3 6) = 6"
    by (simp_all add: order_of_def)
  have s: "find (\<lambda>m. ps_product_id m = 3) (product_sources shop) = None"
    "lookup_product shop 3 = Inr \<lparr>p_id = 3, p_name = ''Cup'', p_unit_price = 10\<rparr>"
    by (simp_all add: shop_def lookup_product_def sqlite_int_def)
  from insufficient_stock_rejected [of "order_of 1 2000" ?d
         "\<lparr>ps_product_id = 1, ps_source_id = 1, ps_factor = 5\<rparr>" server
         "\<lparr>p_id = 1, p_name = ''5L water'', p_unit_price = 40\<rparr>" "40 * 2000" "utcnow_stamp server"]
  have one: "record_order server ?d (order_of 1 2000) =
      (?d, Inl (ValueError ''insufficient stock for this order''))"
    by (simp add: a fl_numeral tank_after_first_order ts_no_dates order_total_plain)
  from insufficient_stock_rejected [of "order_of 3 6" shop _ server
         "\<lparr>p_id = 3, p_name = ''Cup'', p_unit_price = 10\<rparr>" "10 * 6" "utcnow_stamp server"]
  have two: "record_order server shop (order_of 3 6) =
      (shop, Inl (ValueError ''insufficient stock for this order''))"
    by (simp add: a s shop_quantities ts_no_dates order_total_plain)
  show ?thesis
    by (simp add: one two fl_numeral tank_after_first_order shop_quantities)
qed

section \<open>Non-negative quantities\<close>




lemma nonneg_simps [simp]:
  "nonneg (insert_movement d k r dl rs t u) = nonneg d"
  "nonneg (d\<lparr>sales := sl\<rparr>) = nonneg d"
  by (simp_all add: nonneg_def insert_movement_def)




















section \<open>Resolving the timestamp of an order\<close>

lemma od_dt_client_naive:
  "s \<noteq> [] \<Longrightarrow> fromisoformat e s = Some cd \<Longrightarrow> utcoffset cd = None \<Longrightarrow>
   od_dt_client e (Some s) = Some (clock_val cd)"
  by (simp add: od_dt_client_def)

lemma od_dt_client_aware:
  "s \<noteq> [] \<Longrightarrow> fromisoformat e s = Some cd \<Longrightarrow> utcoffset cd = Some off \<Longrightarrow>
   0 \<le> clock_val cd - off \<Longrightarrow> clock_val cd - off < dt_end \<Longrightarrow>
   od_dt_client e (Some s) = Some (clock_val cd - off)"
  by (simp add: od_dt_client_def astimezone_utc_def)

lemma od_dt_client_absent:
  "cts = None \<or> cts = Some [] \<or> (\<exists>s. cts = Some s \<and> fromisoformat e s = None) \<Longrightarrow>
   od_dt_client e cts = None"
  by (auto simp: od_dt_client_def)

lemma od_dt_of_client:
  "od_dt_client e (client_timestamp a) = Some v \<Longrightarrow>
   od_dt e a = Inr (Some \<lparr>clock_val = v, utcoffset = None\<rparr>)"
  by (simp add: od_dt_def)

text \<open>The order date reaches the result of an order through the timestamp only.\<close>

lemma steps_order_date:
  "draw_stock e d (a\<lparr>order_date := x\<rparr>) mp = draw_stock e d a mp"
  "bottles_to_consume d (a\<lparr>order_date := x\<rparr>) mp = bottles_to_consume d a mp"
  "consume_bottles e d (a\<lparr>order_date := x\<rparr>) mp btc = consume_bottles e d a mp btc"
  "insert_sale d p (a\<lparr>order_date := x\<rparr>) tot stamp btc = insert_sale d p a tot stamp btc"
  "order_total p (a\<lparr>order_date := x\<rparr>) = order_total p a"
  by (simp_all add: draw_stock_def bottles_to_consume_def consume_bottles_def insert_sale_def
        order_total_def Let_def cong: option.case_cong sum.case_cong if_cong)

lemma record_order_order_date:
  assumes "ts e (a\<lparr>order_date := x\<rparr>) = ts e a"
  shows "record_order e d (a\<lparr>order_date := x\<rparr>) = record_order e d a"
proof -
  have "order_txn e d (a\<lparr>order_date := x\<rparr>) = order_txn e d a"
    unfolding order_txn_def steps_order_date assms by (simp cong: sum.case_cong)
  then show ?thesis by (simp add: record_order_def)
qed

lemma ts_order_date:
  assumes "od_dt_client e (client_timestamp a) = Some v"
  shows "ts e (a\<lparr>order_date := x\<rparr>) = ts e a" "od_dt e (a\<lparr>order_date := x\<rparr>) = od_dt e a"
  using assms by (simp_all add: ts_def od_dt_def)

text \<open>
  Claim C6 says that a client timestamp that parses always decides the timestamp and
  that the order date is then ignored. This fails where the conversion to UTC leaves
  the years 1 to 9999: \<^verbatim>\<open>astimezone\<close> raises OverflowError inside the
  \<^verbatim>\<open>try\<close> block, the \<^verbatim>\<open>except Exception\<close> sets \<^verbatim>\<open>od_dt\<close> back to
  \<^verbatim>\<open>None\<close>, and the order date is used. The client timestamp
  \<open>0001-01-01T00:00:00+05:00\<close> parses (clock value 0, offset five hours), yet with the
  order date \<open>2024-01-01\<close> the timestamp is midnight of 2024-01-01, and with another
  order date it is another one.
\<close>

theorem client_timestamp_out_of_range:
  "fromisoformat server ''0001-01-01T00:00:00+05:00'' =
     Some \<lparr>clock_val = 0, utcoffset = Some 18000000000\<rparr> \<and>
   fromisoformat server ''2024-01-01'' = Some \<lparr>clock_val = 63839664000000000, utcoffset = None\<rparr> \<and>
   od_dt server ((order_of 1 2)\<lparr>client_timestamp := Some ''0001-01-01T00:00:00+05:00'',
                                 order_date := Some ''2024-01-01''\<rparr>) =
     Inr (Some \<lparr>clock_val = 63839664000000000, utcoffset = None\<rparr>) \<and>
   ts server ((order_of 1 2)\<lparr>client_timestamp := Some ''0001-01-01T00:00:00+05:00'',
                               order_date := Some ''2024-01-01''\<rparr>) = Inr 63839664000000000 \<and>
   ts server ((order_of 1 2)\<lparr>client_timestamp := Some ''0001-01-01T00:00:00+05:00'',
                               order_date := Some ''2025-05-31T10:00:00''\<rparr>) = Inr 63884282400000000"
  by (simp add: run_defs)

text \<open>
  Claim C6, as the code has it. Let the client timestamp be a non-empty string that
  \<^verbatim>\<open>fromisoformat\<close> parses. Without an offset its clock value is taken as it is (as
  if it were UTC already); with an offset, and the clock value minus the offset within
  the years 1 to 9999, the timestamp is the clock value minus the offset. In both cases
  the order date is ignored: whatever it is replaced with, the resolved date-time, the
  stored timestamp and the whole outcome of \<^verbatim>\<open>record_order\<close> are the same.
\<close>

theorem client_timestamp_wins:
  "client_timestamp a = Some s \<and> s \<noteq> [] \<and> fromisoformat e s = Some cd \<longrightarrow>
     (utcoffset cd = None \<longrightarrow>
        od_dt e a = Inr (Some \<lparr>clock_val = clock_val cd, utcoffset = None\<rparr>)) \<and>
     (\<forall>off. utcoffset cd = Some off \<and> 0 \<le> clock_val cd - off \<and> clock_val cd - off < dt_end \<longrightarrow>
        od_dt e a = Inr (Some \<lparr>clock_val = clock_val cd - off, utcoffset = None\<rparr>)) \<and>
     (utcoffset cd = None \<or>
      (\<exists>off. utcoffset cd = Some off \<and> 0 \<le> clock_val cd - off \<and> clock_val cd - off < dt_end) \<longrightarrow>
        od_dt e (a\<lparr>order_date := x\<rparr>) = od_dt e a \<and>
        ts e (a\<lparr>order_date := x\<rparr>) = ts e a \<and>
        record_order e d (a\<lparr>order_date := x\<rparr>) = record_order e d a)"
proof (intro impI, elim conjE)
  assume a: "client_timestamp a = Some s" and s: "s \<noteq> []" and cd: "fromisoformat e s = Some cd"
  have naive: "od_dt_client e (client_timestamp a) = Some (clock_val cd)" if "utcoffset cd = None"
    using od_dt_client_naive [OF s cd that] a by simp
  have aware: "od_dt_client e (client_timestamp a) = Some (clock_val cd - off)"
    if "utcoffset cd = Some off" "0 \<le> clock_val cd - off" "clock_val cd - off < dt_end" for off
    using od_dt_client_aware [OF s cd that] a by simp
  have indep: "od_dt e (a\<lparr>order_date := x\<rparr>) = od_dt e a \<and>
        ts e (a\<lparr>order_date := x\<rparr>) = ts e a \<and>
        record_order e d (a\<lparr>order_date := x\<rparr>) = record_order e d a"
    if "od_dt_client e (client_timestamp a) = Some v" for v
    using ts_order_date [OF that] record_order_order_date by simp
  show "(utcoffset cd = None \<longrightarrow>
        od_dt e a = Inr (Some \<lparr>clock_val = clock_val cd, utcoffset = None\<rparr>)) \<and>
     (\<forall>off. utcoffset cd = Some off \<and> 0 \<le> clock_val cd - off \<and> clock_val cd - off < dt_end \<longrightarrow>
        od_dt e a = Inr (Some \<lparr>clock_val = clock_val cd - off, utcoffset = None\<rparr>)) \<and>
     (utcoffset cd = None \<or>
      (\<exists>off. utcoffset cd = Some off \<and> 0 \<le> clock_val cd - off \<and> clock_val cd - off < dt_end) \<longrightarrow>
        od_dt e (a\<lparr>order_date := x\<rparr>) = od_dt e a \<and>
        ts e (a\<lparr>order_date := x\<rparr>) = ts e a \<and>
        record_order e d (a\<lparr>order_date := x\<rparr>) = record_order e d a)"
    using naive aware indep od_dt_of_client by blast
qed

theorem client_timestamp_wins_witness:
  "od_dt server ((order_of 1 2)\<lparr>client_timestamp := Some ''2025-05-31T10:00:00+03:00'',
                                 order_date := Some ''2024-01-01''\<rparr>) =
     Inr (Some \<lparr>clock_val = 63884282400000000 - 10800000000, utcoffset = None\<rparr>) \<and>
   od_dt server ((order_of 1 2)\<lparr>client_timestamp := Some ''2025-05-31T10:00:00'',
                                 order_date := Some ''2024-01-01''\<rparr>) =
     Inr (Some \<lparr>clock_val = 63884282400000000, utcoffset = None\<rparr>) \<and>
   record_order server shop ((order_of 1 2)\<lparr>client_timestamp := Some ''2025-05-31T10:00:00+03:00'',
                                               order_date := Some ''2999-01-01T00:00:00''\<rparr>) =
   record_order server shop ((order_of 1 2)\<lparr>client_timestamp := Some ''2025-05-31T10:00:00+03:00'',
                                               order_date := Some ''2024-01-01''\<rparr>)"
proof -
  let ?aw = "(order_of 1 2)\<lparr>client_timestamp := Some ''2025-05-31T10:00:00+03:00'',
                            order_date := Some ''2024-01-01''\<rparr>"
  let ?nv = "(order_of 1 2)\<lparr>client_timestamp := Some ''2025-05-31T10:00:00'',
                            order_date := Some ''2024-01-01''\<rparr>"
  have p: "fromisoformat server ''2025-05-31T10:00:00+03:00'' =
             Some \<lparr>clock_val = 63884282400000000, utcoffset = Some 10800000000\<rparr>"
    "fromisoformat server ''2025-05-31T10:00:00'' =
             Some \<lparr>clock_val = 63884282400000000, utcoffset = None\<rparr>"
    by (simp_all add: server_def iso_values_def)
  from client_timestamp_wins [where a = ?aw and s = "''2025-05-31T10:00:00+03:00''" and e = server
      and cd = "\<lparr>clock_val = 63884282400000000, utcoffset = Some 10800000000\<rparr>"
      and x = "Some ''2999-01-01T00:00:00''" and d = shop] p
  have 1: "od_dt server ?aw =
        Inr (Some \<lparr>clock_val = 63884282400000000 - 10800000000, utcoffset = None\<rparr>) \<and>
      record_order server shop (?aw\<lparr>order_date := Some ''2999-01-01T00:00:00''\<rparr>) =
      record_order server shop ?aw"
    by (simp add: dt_end_def day_us_def)
  from client_timestamp_wins [where a = ?nv and s = "''2025-05-31T10:00:00''" and e = server
      and cd = "\<lparr>clock_val = 63884282400000000, utcoffset = None\<rparr>"
      and x = None and d = shop] p
  have 2: "od_dt server ?nv = Inr (Some \<lparr>clock_val = 63884282400000000, utcoffset = None\<rparr>)"
    by simp
  from 1 2 show ?thesis by simp
qed

lemma ts_unparsable:
  assumes "od_dt_client e (client_timestamp a) = None"
    and "order_date a = Some s" "s \<noteq> []" "fromisoformat e s = None" "strptime_ymd e s = None"
  shows "ts e a = Inl (ValueError ''order_date must be YYYY-MM-DD or an ISO datetime (YYYY-MM-DDTHH:MM)'')"
  using assms by (simp add: ts_def od_dt_def)

lemma ts_absent:
  assumes "od_dt_client e (client_timestamp a) = None"
    and "order_date a = None \<or> order_date a = Some []"
  shows "od_dt e a = Inr None" "ts e a = Inr (utcnow_stamp e)"
  using assms by (auto simp: ts_def od_dt_def)

lemma record_order_ts_fails:
  assumes "ts e a = Inl err"
  shows "\<exists>err'. record_order e d a = (d, Inl err')"
    and "0 < quantity a \<Longrightarrow> lookup_product d (product_id a) = Inr p \<Longrightarrow>
         order_total p a = Inr tot \<Longrightarrow> record_order e d a = (d, Inl err)"
  using assms
  by (auto simp: record_order_def order_txn_def Let_def split: sum.splits)

lemma record_order_stamp:
  assumes "record_order e d a = (d', Inr (s, n))"
  shows "ts e a = Inr (sale_timestamp s)"
  using assms by (rule record_order_Inr) (simp add: insert_sale_def)

text \<open>
  Claim C7 says that an order whose order date parses in neither format proceeds with
  the server time. This fails: with no client timestamp and the order date
  \<open>not a date\<close>, which both parsers reject, \<^verbatim>\<open>record_order\<close> raises
  \<^verbatim>\<open>ValueError('order_date must be YYYY-MM-DD or an ISO datetime (YYYY-MM-DDTHH:MM)')\<close>
  and nothing is stored.
\<close>

theorem unparsable_order_date_rejected:
  "fromisoformat server ''not a date'' = None \<and> strptime_ymd server ''not a date'' = None \<and>
   record_order server tank_store ((order_of 1 2)\<lparr>order_date := Some ''not a date''\<rparr>) =
     (tank_store,
      Inl (ValueError ''order_date must be YYYY-MM-DD or an ISO datetime (YYYY-MM-DDTHH:MM)''))"
  by (simp add: run_defs)

text \<open>
  Claim C7, as the code has it. Let the client timestamp be absent, empty or rejected by
  \<^verbatim>\<open>fromisoformat\<close>. If the order date is absent or empty, no date-time is resolved,
  the timestamp is the server's current time and no date-related failure occurs: the
  sale of an order that succeeds carries that time. If the order date is a non-empty
  string that neither \<^verbatim>\<open>fromisoformat\<close> nor \<^verbatim>\<open>strptime\<close> with
  \<open>%Y-%m-%d\<close> accepts, the order fails with the store unchanged, and with the
  InvalidOrderDate message whenever the steps before the date resolution pass (the
  quantity is positive, the product exists and the total is computed).
\<close>

theorem server_time_fallback:
  "client_timestamp a = None \<or> client_timestamp a = Some [] \<or>
   (\<exists>c. client_timestamp a = Some c \<and> fromisoformat e c = None) \<longrightarrow>
     (order_date a = None \<or> order_date a = Some [] \<longrightarrow>
        od_dt e a = Inr None \<and> ts e a = Inr (utcnow_stamp e) \<and>
        (record_order e d a = (d', Inr (s, n)) \<longrightarrow> sale_timestamp s = utcnow_stamp e)) \<and>
     (\<forall>od. order_date a = Some od \<and> od \<noteq> [] \<and> fromisoformat e od = None \<and>
           strptime_ymd e od = None \<longrightarrow>
        ts e a = Inl (ValueError
          ''order_date must be YYYY-MM-DD or an ISO datetime (YYYY-MM-DDTHH:MM)'') \<and>
        (\<exists>err. record_order e d a = (d, Inl err)) \<and>
        (0 < quantity a \<and> lookup_product d (product_id a) = Inr p \<and>
         order_total p a = Inr tot \<longrightarrow>
           record_order e d a = (d, Inl (ValueError
             ''order_date must be YYYY-MM-DD or an ISO datetime (YYYY-MM-DDTHH:MM)''))))"
proof (intro impI)
  assume "client_timestamp a = None \<or> client_timestamp a = Some [] \<or>
   (\<exists>c. client_timestamp a = Some c \<and> fromisoformat e c = None)"
  then have c: "od_dt_client e (client_timestamp a) = None" by (rule od_dt_client_absent)
  have 1: "od_dt e a = Inr None \<and> ts e a = Inr (utcnow_stamp e) \<and>
        (record_order e d a = (d', Inr (s, n)) \<longrightarrow> sale_timestamp s = utcnow_stamp e)"
    if "order_date a = None \<or> order_date a = Some []"
    using ts_absent [OF c that] record_order_stamp [of e d a d' s n] by auto
  have 2: "ts e a = Inl (ValueError
          ''order_date must be YYYY-MM-DD or an ISO datetime (YYYY-MM-DDTHH:MM)'') \<and>
        (\<exists>err. record_order e d a = (d, Inl err)) \<and>
        (0 < quantity a \<and> lookup_product d (product_id a) = Inr p \<and>
         order_total p a = Inr tot \<longrightarrow>
           record_order e d a = (d, Inl (ValueError
             ''order_date must be YYYY-MM-DD or an ISO datetime (YYYY-MM-DDTHH:MM)'')))"
    if "order_date a = Some od" "od \<noteq> []" "fromisoformat e od = None" "strptime_ymd e od = None" for od
    using record_order_ts_fails [OF ts_unparsable [OF c that]] ts_unparsable [OF c that] by blast
  from 1 2 show "(order_date a = None \<or> order_date a = Some [] \<longrightarrow>
        od_dt e a = Inr None \<and> ts e a = Inr (utcnow_stamp e) \<and>
        (record_order e d a = (d', Inr (s, n)) \<longrightarrow> sale_timestamp s = utcnow_stamp e)) \<and>
     (\<forall>od. order_date a = Some od \<and> od \<noteq> [] \<and> fromisoformat e od = None \<and>
           strptime_ymd e od = None \<longrightarrow>
        ts e a = Inl (ValueError
          ''order_date must be YYYY-MM-DD or an ISO datetime (YYYY-MM-DDTHH:MM)'') \<and>
        (\<exists>err. record_order e d a = (d, Inl err)) \<and>
        (0 < quantity a \<and> lookup_product d (product_id a) = Inr p \<and>
         order_total p a = Inr tot \<longrightarrow>
           record_order e d a = (d, Inl (ValueError
             ''order_date must be YYYY-MM-DD or an ISO datetime (YYYY-MM-DDTHH:MM)''))))"
    by blast
qed

theorem server_time_fallback_witness:
  "fromisoformat server ''garbage'' = None \<and>
   ts server ((order_of 1 2)\<lparr>client_timestamp := Some ''garbage''\<rparr>) = Inr (utcnow_stamp server) \<and>
   (\<exists>d' s n. record_order server tank_store ((order_of 1 2)\<lparr>client_timestamp := Some ''garbage''\<rparr>)
                = (d', Inr (s, n)) \<and> sale_timestamp s = utcnow_stamp server) \<and>
   record_order server tank_store ((order_of 1 2)\<lparr>order_date := Some ''not a date''\<rparr>) =
     (tank_store,
      Inl (ValueError ''order_date must be YYYY-MM-DD or an ISO datetime (YYYY-MM-DDTHH:MM)''))"
proof -
  let ?g = "(order_of 1 2)\<lparr>client_timestamp := Some ''garbage''\<rparr>"
  let ?n = "(order_of 1 2)\<lparr>order_date := Some ''not a date''\<rparr>"
  have p: "fromisoformat server ''garbage'' = None" "fromisoformat server ''not a date'' = None"
    "strptime_ymd server ''not a date'' = None"
    by (simp_all add: server_def iso_values_def)
  have f: "client_timestamp ?g = Some ''garbage''" "order_date ?g = None"
    "client_timestamp ?n = None" "order_date ?n = Some ''not a date''"
    "quantity ?n = 2" "product_id ?n = 1"
    "lookup_product tank_store 1 = Inr \<lparr>p_id = 1, p_name = ''5L water'', p_unit_price = 40\<rparr>"
    "order_total \<lparr>p_id = 1, p_name = ''5L water'', p_unit_price = 40\<rparr> ?n = Inr 80"
    by (simp_all add: order_of_def tank_store_def lookup_product_def sqlite_int_def
          order_total_def)
  obtain d' s n where ok: "record_order server tank_store ?g = (d', Inr (s, n))"
    by (simp add: run_defs)
  from server_time_fallback [where a = ?g and e = server and d = tank_store and d' = d'
      and s = s and n = n] p f ok
  have 1: "ts server ?g = Inr (utcnow_stamp server) \<and> sale_timestamp s = utcnow_stamp server"
    by simp
  from server_time_fallback [where a = ?n and e = server and d = tank_store
      and p = "\<lparr>p_id = 1, p_name = ''5L water'', p_unit_price = 40\<rparr>" and tot = 80] p f
  have 2: "record_order server tank_store ?n =
     (tank_store,
      Inl (ValueError ''order_date must be YYYY-MM-DD or an ISO datetime (YYYY-MM-DDTHH:MM)''))"
    by simp
  from 1 2 ok p show ?thesis by blast
qed

lemma future_check:
  "od_dt e a = Inr (Some \<lparr>clock_val = v, utcoffset = None\<rparr>) \<Longrightarrow> utcnow_check e < v \<Longrightarrow>
     ts e a = Inl (ValueError ''order_date cannot be in the future'')"
  "od_dt e a = Inr (Some \<lparr>clock_val = v, utcoffset = None\<rparr>) \<Longrightarrow> v \<le> utcnow_check e \<Longrightarrow>
     ts e a = Inr (replace_microsecond_0 v)"
  "od_dt e a = Inr (Some \<lparr>clock_val = v, utcoffset = Some off\<rparr>) \<Longrightarrow> ts e a = Inl TypeError"
  by (simp_all add: ts_def)

lemma future_order_rejected:
  assumes "od_dt e a = Inr (Some \<lparr>clock_val = v, utcoffset = None\<rparr>)" and "utcnow_check e < v"
    and "0 < quantity a" and "lookup_product d (product_id a) = Inr p"
    and "order_total p a = Inr tot"
  shows "record_order e d a = (d, Inl (ValueError ''order_date cannot be in the future''))"
  using record_order_ts_fails(2) [OF future_check(1) [OF assms(1,2)] assms(3,4,5)] .

lemma offset_order_date_compared:
  assumes "od_dt_client e (client_timestamp a) = None" and "order_date a = Some od" "od \<noteq> []"
    and "fromisoformat e od = Some \<lparr>clock_val = v, utcoffset = Some off\<rparr>"
    and "0 < quantity a" and "lookup_product d (product_id a) = Inr p"
    and "order_total p a = Inr tot"
  shows "record_order e d a = (d, Inl TypeError)"
proof -
  from assms(1-4) have "od_dt e a = Inr (Some \<lparr>clock_val = v, utcoffset = Some off\<rparr>)"
    by (simp add: od_dt_def)
  then have "ts e a = Inl TypeError" by (rule future_check(3))
  from record_order_ts_fails(2) [OF this assms(5,6,7)] show ?thesis .
qed

text \<open>
  Claim C10 is that every resolved timestamp later than the server time fails with
  \<^verbatim>\<open>ValueError('order_date cannot be in the future')\<close>. The check compares
  \<^verbatim>\<open>od_dt\<close> with the naive \<^verbatim>\<open>datetime.utcnow()\<close>; a date-time parsed from the
  \<^emph>\<open>order date\<close> keeps its offset (only the client timestamp is converted to naive
  UTC), so for an order date with an offset Python raises TypeError instead. With the
  server at 2025-06-01 and the order date \<open>2999-01-01T00:00:00+00:00\<close>, the order fails
  with TypeError; the same instant without the offset, or given as client timestamp,
  fails with the future-date error.
\<close>

theorem offset_order_date_type_error:
  "fromisoformat server ''2999-01-01T00:00:00+00:00'' =
     Some \<lparr>clock_val = 94607740800000000, utcoffset = Some 0\<rparr> \<and>
   utcnow_check server < 94607740800000000 \<and>
   record_order server tank_store ((order_of 1 2)\<lparr>order_date := Some ''2999-01-01T00:00:00+00:00''\<rparr>)
     = (tank_store, Inl TypeError) \<and>
   record_order server tank_store ((order_of 1 2)\<lparr>order_date := Some ''2999-01-01T00:00:00''\<rparr>)
     = (tank_store, Inl (ValueError ''order_date cannot be in the future'')) \<and>
   record_order server tank_store
       ((order_of 1 2)\<lparr>client_timestamp := Some ''2999-01-01T00:00:00+00:00''\<rparr>)
     = (tank_store, Inl (ValueError ''order_date cannot be in the future''))"
  by (simp add: run_defs)

section \<open>Reusable bottles\<close>

lemma draw_stock_products:
  "draw_stock e d a mp = Inr d1 \<Longrightarrow> products d1 = products d"
  by (cases mp) (auto simp: draw_stock_def Let_def split: if_splits)

lemma bottles_to_consume_count:
  assumes "bottles_to_consume d1 a mp = Inr (Some k)"
  shows "(\<forall>b. bottles_used a = Some b \<longrightarrow> k = b) \<and>
         (bottles_used a = None \<longrightarrow> use_bottle a \<and> k = bottles_of_quantity (quantity a))"
  using assms by (auto simp: bottles_to_consume_def split: option.splits if_splits)

lemma bottles_explicit:
  "bottles_used a = Some b \<Longrightarrow> 0 \<le> b \<Longrightarrow> bottles_to_consume d1 a mp = Inr (Some b)"
  by (simp add: bottles_to_consume_def)

lemma py_float_Inl: "py_float n = Inl err \<Longrightarrow> err = OverflowError"
  by (auto simp: py_float_def Let_def split: if_splits)

lemma consume_bottles_none:
  "find_bottle_pid d1 mp = None \<Longrightarrow> consume_bottles e d1 a mp btc = Inr d1"
  by (simp add: consume_bottles_def split: option.splits)

lemma consume_bottles_unconvertible:
  assumes "0 < k" "find_bottle_pid d1 mp = Some bp" "py_float k = Inl err"
  shows "consume_bottles e d1 a mp (Some k) = Inl err"
  using assms by (simp add: consume_bottles_def)

lemma consume_bottles_short:
  assumes "0 < k" "find_bottle_pid d1 mp = Some bp" "py_float k = Inr c"
    "inventory_quantity d1 bp - c < 0"
  shows "consume_bottles e d1 a mp (Some k) =
           Inl (ValueError ''insufficient bottle stock for this order'')"
  using assms by (simp add: consume_bottles_def)

lemma consume_bottles_ok:
  assumes "0 < k" "find_bottle_pid d1 mp = Some bp" "py_float k = Inr c"
    "0 \<le> inventory_quantity d1 bp - c" "k \<le> 2 ^ 63"
  shows "consume_bottles e d1 a mp (Some k) =
           Inr (insert_movement
                  (write_inventory d1 bp (inventory_quantity d1 bp - c) (utcnow_ts e))
                  ''inventory'' bp (- c)
                  (''order_bottle:'' @ str_int (product_id a)) (utcnow_ts e) (created_by a))"
  using assms by (simp add: consume_bottles_def sqlite_int_def)

lemma consume_bottles_unbindable:
  assumes "0 < k" "find_bottle_pid d1 mp = Some bp" "py_float k = Inr c"
    "0 \<le> inventory_quantity d1 bp - c" "2 ^ 63 < k"
  shows "consume_bottles e d1 a mp (Some k) = Inl OverflowError"
  using assms by (simp add: consume_bottles_def sqlite_int_def)

lemma record_order_steps:
  assumes "0 < quantity a" "lookup_product d (product_id a) = Inr p" "order_total p a = Inr tot"
    and "ts e a = Inr stamp"
    and "draw_stock e d a (find (\<lambda>m. ps_product_id m = product_id a) (product_sources d)) = Inr d1"
    and "bottles_to_consume d1 a (find (\<lambda>m. ps_product_id m = product_id a) (product_sources d)) = Inr btc"
  shows "consume_bottles e d1 a (find (\<lambda>m. ps_product_id m = product_id a) (product_sources d)) btc = Inl err
           \<Longrightarrow> record_order e d a = (d, Inl err)"
    and "consume_bottles e d1 a (find (\<lambda>m. ps_product_id m = product_id a) (product_sources d)) btc = Inr d2
           \<Longrightarrow> sqlite_int (case btc of Some n \<Rightarrow> n | None \<Rightarrow> 0)
           \<Longrightarrow> record_order e d a =
                 (d2\<lparr>sales := sales d2 @ [insert_sale d2 p a tot stamp btc]\<rparr>,
                  Inr (insert_sale d2 p a tot stamp btc, p_name p))"
    and "consume_bottles e d1 a (find (\<lambda>m. ps_product_id m = product_id a) (product_sources d)) btc = Inr d2
           \<Longrightarrow> \<not> sqlite_int (case btc of Some n \<Rightarrow> n | None \<Rightarrow> 0)
           \<Longrightarrow> record_order e d a = (d, Inl OverflowError)"
  using assms by (simp_all add: record_order_def order_txn_def Let_def)

text \<open>
  Claim C8 says that whenever a bottle count greater than 0 is determined, the bottle
  product's inventory is decremented and a movement is appended. This fails for an
  explicit count when no bottle product can be found: the decrement is guarded by
  \<^verbatim>\<open>if bottle_pid is not None\<close>. In the scenario store, whose only product is
  ``5L water'', an order with \<^verbatim>\<open>bottles_used=3\<close> succeeds and its sale records 3
  bottles, but the only movement is the one of the order itself and no inventory row
  is written.
\<close>

theorem explicit_count_without_bottle_product:
  "map p_name (products tank_store) = [''5L water''] \<and>
   map_sum id (sale_bottles_used \<circ> fst)
     (snd (record_order server tank_store ((order_of 1 2)\<lparr>bottles_used := Some 3\<rparr>))) = Inr 3 \<and>
   map m_reason
     (movements (fst (record_order server tank_store ((order_of 1 2)\<lparr>bottles_used := Some 3\<rparr>))))
     = [''order:1''] \<and>
   inventory (fst (record_order server tank_store ((order_of 1 2)\<lparr>bottles_used := Some 3\<rparr>))) = []"
  by (simp add: run_defs)

text \<open>
  Claim C8, as the code has it. Take an order that has passed the quantity check, the
  product lookup, the pricing, the date resolution and the stock draw (leaving the open
  transaction in state \<open>d1\<close>), for which a bottle count \<open>k > 0\<close> is determined. The
  count is the explicit \<^verbatim>\<open>bottles_used\<close> whenever one is given, whatever the flag
  says; otherwise the flag is set and the count is derived from the quantity.

  Where a bottle product \<open>bp\<close> is found (by the name derived from the factor, else by
  the pattern), the count is converted to a float \<open>c\<close>, which is \<open>k\<close> itself below
  \<open>2 ^ 53\<close>; if the conversion overflows, the order fails with that error. If the bottle
  product's inventory minus \<open>c\<close> is negative the order fails with
  \<^verbatim>\<open>ValueError('insufficient bottle stock for this order')\<close>. Otherwise, for a count
  below \<open>2 ^ 63\<close>, the order succeeds, the sale records \<open>k\<close> bottles, the bottle
  product's inventory is lower by \<open>c\<close>, and one movement of kind \<open>inventory\<close> for \<open>bp\<close>
  with delta \<open>-c\<close> and reason \<open>order_bottle:<product id>\<close> is appended; for a count of
  \<open>2 ^ 63\<close> or more, which SQLite cannot store, the order fails with OverflowError.

  Where no bottle product is found, an order with a count below \<open>2 ^ 63\<close> succeeds, its
  sale records \<open>k\<close> bottles, and the store is the one after the stock draw plus that
  sale: no inventory is decremented and no bottle movement is appended. With a count of
  \<open>2 ^ 63\<close> or more it fails with OverflowError. Every failure leaves the store
  unchanged.
\<close>

theorem bottles_consumed:
  "0 < quantity a \<and> lookup_product d (product_id a) = Inr p \<and> order_total p a = Inr tot \<and>
   ts e a = Inr stamp \<and>
   mp = find (\<lambda>m. ps_product_id m = product_id a) (product_sources d) \<and>
   draw_stock e d a mp = Inr d1 \<and>
   bottles_to_consume d1 a mp = Inr (Some k) \<and> 0 < k \<longrightarrow>
     (\<forall>b. bottles_used a = Some b \<longrightarrow> k = b) \<and>
     (bottles_used a = None \<longrightarrow> use_bottle a \<and> k = bottles_of_quantity (quantity a)) \<and>
     (k < 2 ^ 53 \<longrightarrow> py_float k = Inr (of_int k)) \<and>
     (find_bottle_pid d mp = Some bp \<and> py_float k = Inl err \<longrightarrow>
        err = OverflowError \<and> record_order e d a = (d, Inl OverflowError)) \<and>
     (find_bottle_pid d mp = Some bp \<and> py_float k = Inr c \<longrightarrow>
        (inventory_quantity d1 bp - c < 0 \<longrightarrow>
           record_order e d a = (d, Inl (ValueError ''insufficient bottle stock for this order''))) \<and>
        (0 \<le> inventory_quantity d1 bp - c \<and> k < 2 ^ 63 \<longrightarrow>
           (\<exists>d' s. record_order e d a = (d', Inr (s, p_name p)) \<and> sale_bottles_used s = k \<and>
              inventory_quantity d' bp = inventory_quantity d1 bp - c \<and>
              movements d' = movements d1 @
                [\<lparr>m_id = next_id (map m_id (movements d1)), m_kind = ''inventory'', m_ref_id = bp,
                  m_delta = - c, m_reason = ''order_bottle:'' @ str_int (product_id a),
                  m_timestamp = utcnow_ts e, m_user_id = created_by a\<rparr>])) \<and>
        (0 \<le> inventory_quantity d1 bp - c \<and> 2 ^ 63 \<le> k \<longrightarrow>
           record_order e d a = (d, Inl OverflowError))) \<and>
     (find_bottle_pid d mp = None \<longrightarrow>
        (k < 2 ^ 63 \<longrightarrow>
           (\<exists>s. record_order e d a = (d1\<lparr>sales := sales d1 @ [s]\<rparr>, Inr (s, p_name p)) \<and>
              sale_bottles_used s = k)) \<and>
        (2 ^ 63 \<le> k \<longrightarrow> record_order e d a = (d, Inl OverflowError)))"
proof (intro impI, elim conjE)
  assume q: "0 < quantity a" and p: "lookup_product d (product_id a) = Inr p"
    and tot: "order_total p a = Inr tot" and t: "ts e a = Inr stamp"
    and mp: "mp = find (\<lambda>m. ps_product_id m = product_id a) (product_sources d)"
    and draw: "draw_stock e d a mp = Inr d1"
    and btc: "bottles_to_consume d1 a mp = Inr (Some k)" and k: "0 < k"
  have same: "find_bottle_pid d1 mp = find_bottle_pid d mp"
    by (rule find_bottle_pid_cong [OF draw_stock_products [OF draw]])
  note steps = record_order_steps [OF q p tot t draw [unfolded mp] btc [unfolded mp], folded mp]
  have bind: "sqlite_int (case Some k of Some n \<Rightarrow> n | None \<Rightarrow> 0) \<longleftrightarrow> k < 2 ^ 63"
    using k by (simp add: sqlite_int_def)
  have small: "py_float k = Inr (of_int k)" if "k < 2 ^ 53"
    using k that by (intro py_float_small) simp
  have unconv: "err = OverflowError \<and> record_order e d a = (d, Inl OverflowError)"
    if "find_bottle_pid d mp = Some bp" "py_float k = Inl err"
  proof -
    from that(2) have e: "err = OverflowError" by (rule py_float_Inl)
    from that(1) same have "find_bottle_pid d1 mp = Some bp" by simp
    from steps(1) [OF consume_bottles_unconvertible [OF k this that(2)]] e
    show ?thesis by simp
  qed
  have short: "record_order e d a = (d, Inl (ValueError ''insufficient bottle stock for this order''))"
    if "find_bottle_pid d mp = Some bp" "py_float k = Inr c" "inventory_quantity d1 bp - c < 0"
  proof -
    from that(1) same have "find_bottle_pid d1 mp = Some bp" by simp
    from steps(1) [OF consume_bottles_short [OF k this that(2,3)]] show ?thesis .
  qed
  have ok: "\<exists>d' s. record_order e d a = (d', Inr (s, p_name p)) \<and> sale_bottles_used s = k \<and>
           inventory_quantity d' bp = inventory_quantity d1 bp - c \<and>
           movements d' = movements d1 @
             [\<lparr>m_id = next_id (map m_id (movements d1)), m_kind = ''inventory'', m_ref_id = bp,
               m_delta = - c, m_reason = ''order_bottle:'' @ str_int (product_id a),
               m_timestamp = utcnow_ts e, m_user_id = created_by a\<rparr>]"
    if "find_bottle_pid d mp = Some bp" "py_float k = Inr c" "0 \<le> inventory_quantity d1 bp - c"
      "k < 2 ^ 63"
  proof -
    from that(1) same have bp1: "find_bottle_pid d1 mp = Some bp" by simp
    from that(4) have le: "k \<le> 2 ^ 63" by simp
    from that(4) bind have b: "sqlite_int (case Some k of Some n \<Rightarrow> n | None \<Rightarrow> 0)" by simp
    from steps(2) [OF consume_bottles_ok [OF k bp1 that(2,3) le] b]
    show ?thesis by (simp add: insert_sale_def insert_movement_movements)
  qed
  have big: "record_order e d a = (d, Inl OverflowError)"
    if "find_bottle_pid d mp = Some bp" "py_float k = Inr c" "0 \<le> inventory_quantity d1 bp - c"
      "2 ^ 63 \<le> k"
  proof (cases "k = 2 ^ 63")
    case True
    from that(1) same have bp1: "find_bottle_pid d1 mp = Some bp" by simp
    from True have le: "k \<le> 2 ^ 63" by simp
    from True bind have b: "\<not> sqlite_int (case Some k of Some n \<Rightarrow> n | None \<Rightarrow> 0)" by simp
    from steps(3) [OF consume_bottles_ok [OF k bp1 that(2,3) le] b] show ?thesis .
  next
    case False
    from that(1) same have bp1: "find_bottle_pid d1 mp = Some bp" by simp
    from False that(4) have "2 ^ 63 < k" by simp
    from steps(1) [OF consume_bottles_unbindable [OF k bp1 that(2,3) this]] show ?thesis .
  qed
  have none_ok: "\<exists>s. record_order e d a = (d1\<lparr>sales := sales d1 @ [s]\<rparr>, Inr (s, p_name p)) \<and>
              sale_bottles_used s = k"
    if "find_bottle_pid d mp = None" "k < 2 ^ 63"
  proof -
    from that(1) same have "find_bottle_pid d1 mp = None" by simp
    then have c: "consume_bottles e d1 a mp (Some k) = Inr d1" by (rule consume_bottles_none)
    from that(2) bind have b: "sqlite_int (case Some k of Some n \<Rightarrow> n | None \<Rightarrow> 0)" by simp
    have "sale_bottles_used (insert_sale d1 p a tot stamp (Some k)) = k"
      by (simp add: insert_sale_def)
    with steps(2) [OF c b] show ?thesis by blast
  qed
  have none_big: "record_order e d a = (d, Inl OverflowError)"
    if "find_bottle_pid d mp = None" "2 ^ 63 \<le> k"
  proof -
    from that(1) same have "find_bottle_pid d1 mp = None" by simp
    then have c: "consume_bottles e d1 a mp (Some k) = Inr d1" by (rule consume_bottles_none)
    from that(2) bind have b: "\<not> sqlite_int (case Some k of Some n \<Rightarrow> n | None \<Rightarrow> 0)" by simp
    from steps(3) [OF c b] show ?thesis .
  qed
  from bottles_to_consume_count [OF btc]
  have cl1: "\<forall>b. bottles_used a = Some b \<longrightarrow> k = b"
    and cl2: "bottles_used a = None \<longrightarrow> use_bottle a \<and> k = bottles_of_quantity (quantity a)"
    by simp_all
  from small have cl3: "k < 2 ^ 53 \<longrightarrow> py_float k = Inr (of_int k)" by (rule impI)
  have cl4: "find_bottle_pid d mp = Some bp \<and> py_float k = Inl err \<longrightarrow>
        err = OverflowError \<and> record_order e d a = (d, Inl OverflowError)"
  proof (intro impI, elim conjE)
    assume "find_bottle_pid d mp = Some bp" "py_float k = Inl err"
    then show "err = OverflowError \<and> record_order e d a = (d, Inl OverflowError)" by (rule unconv)
  qed
  have cl5: "find_bottle_pid d mp = Some bp \<and> py_float k = Inr c \<longrightarrow>
        (inventory_quantity d1 bp - c < 0 \<longrightarrow>
           record_order e d a = (d, Inl (ValueError ''insufficient bottle stock for this order''))) \<and>
        (0 \<le> inventory_quantity d1 bp - c \<and> k < 2 ^ 63 \<longrightarrow>
           (\<exists>d' s. record_order e d a = (d', Inr (s, p_name p)) \<and> sale_bottles_used s = k \<and>
              inventory_quantity d' bp = inventory_quantity d1 bp - c \<and>
              movements d' = movements d1 @
                [\<lparr>m_id = next_id (map m_id (movements d1)), m_kind = ''inventory'', m_ref_id = bp,
                  m_delta = - c, m_reason = ''order_bottle:'' @ str_int (product_id a),
                  m_timestamp = utcnow_ts e, m_user_id = created_by a\<rparr>])) \<and>
        (0 \<le> inventory_quantity d1 bp - c \<and> 2 ^ 63 \<le> k \<longrightarrow>
           record_order e d a = (d, Inl OverflowError))"
  proof (intro impI conjI; elim conjE)
    assume f: "find_bottle_pid d mp = Some bp" "py_float k = Inr c"
    {
      assume "inventory_quantity d1 bp - c < 0"
      with f show "record_order e d a =
          (d, Inl (ValueError ''insufficient bottle stock for this order''))" by (rule short)
    next
      assume "0 \<le> inventory_quantity d1 bp - c" "k < 2 ^ 63"
      with f show "\<exists>d' s. record_order e d a = (d', Inr (s, p_name p)) \<and> sale_bottles_used s = k \<and>
              inventory_quantity d' bp = inventory_quantity d1 bp - c \<and>
              movements d' = movements d1 @
                [\<lparr>m_id = next_id (map m_id (movements d1)), m_kind = ''inventory'', m_ref_id = bp,
                  m_delta = - c, m_reason = ''order_bottle:'' @ str_int (product_id a),
                  m_timestamp = utcnow_ts e, m_user_id = created_by a\<rparr>]" by (rule ok)
    next
      assume "0 \<le> inventory_quantity d1 bp - c" "2 ^ 63 \<le> k"
      with f show "record_order e d a = (d, Inl OverflowError)" by (rule big)
    }
  qed
  have cl6: "find_bottle_pid d mp = None \<longrightarrow>
        (k < 2 ^ 63 \<longrightarrow>
           (\<exists>s. record_order e d a = (d1\<lparr>sales := sales d1 @ [s]\<rparr>, Inr (s, p_name p)) \<and>
              sale_bottles_used s = k)) \<and>
        (2 ^ 63 \<le> k \<longrightarrow> record_order e d a = (d, Inl OverflowError))"
  proof (intro impI conjI)
    assume f: "find_bottle_pid d mp = None"
    {
      assume "k < 2 ^ 63"
      with f show "\<exists>s. record_order e d a = (d1\<lparr>sales := sales d1 @ [s]\<rparr>, Inr (s, p_name p)) \<and>
              sale_bottles_used s = k" by (rule none_ok)
    next
      assume "2 ^ 63 \<le> k"
      with f show "record_order e d a = (d, Inl OverflowError)" by (rule none_big)
    }
  qed
  show "(\<forall>b. bottles_used a = Some b \<longrightarrow> k = b) \<and>
     (bottles_used a = None \<longrightarrow> use_bottle a \<and> k = bottles_of_quantity (quantity a)) \<and>
     (k < 2 ^ 53 \<longrightarrow> py_float k = Inr (of_int k)) \<and>
     (find_bottle_pid d mp = Some bp \<and> py_float k = Inl err \<longrightarrow>
        err = OverflowError \<and> record_order e d a = (d, Inl OverflowError)) \<and>
     (find_bottle_pid d mp = Some bp \<and> py_float k = Inr c \<longrightarrow>
        (inventory_quantity d1 bp - c < 0 \<longrightarrow>
           record_order e d a = (d, Inl (ValueError ''insufficient bottle stock for this order''))) \<and>
        (0 \<le> inventory_quantity d1 bp - c \<and> k < 2 ^ 63 \<longrightarrow>
           (\<exists>d' s. record_order e d a = (d', Inr (s, p_name p)) \<and> sale_bottles_used s = k \<and>
              inventory_quantity d' bp = inventory_quantity d1 bp - c \<and>
              movements d' = movements d1 @
                [\<lparr>m_id = next_id (map m_id (movements d1)), m_kind = ''inventory'', m_ref_id = bp,
                  m_delta = - c, m_reason = ''order_bottle:'' @ str_int (product_id a),
                  m_timestamp = utcnow_ts e, m_user_id = created_by a\<rparr>])) \<and>
        (0 \<le> inventory_quantity d1 bp - c \<and> 2 ^ 63 \<le> k \<longrightarrow>
           record_order e d a = (d, Inl OverflowError))) \<and>
     (find_bottle_pid d mp = None \<longrightarrow>
        (k < 2 ^ 63 \<longrightarrow>
           (\<exists>s. record_order e d a = (d1\<lparr>sales := sales d1 @ [s]\<rparr>, Inr (s, p_name p)) \<and>
              sale_bottles_used s = k)) \<and>
        (2 ^ 63 \<le> k \<longrightarrow> record_order e d a = (d, Inl OverflowError)))"
    by (intro conjI) (fact cl1 cl2 cl3 cl4 cl5 cl6)+
qed

theorem bottles_consumed_witness:
  "(\<exists>d' s. record_order server shop ((order_of 1 2)\<lparr>use_bottle := True\<rparr>) = (d', Inr (s, ''5L water'')) \<and>
      sale_bottles_used s = 2 \<and> inventory_quantity d' 2 = 120 - 2 \<and>
      map m_reason (movements d') = [''order:1'', ''order_bottle:1''] \<and>
      map m_delta (movements d') = [- 10, - 2]) \<and>
   record_order server shop ((order_of 1 2)\<lparr>bottles_used := Some 500\<rparr>) =
     (shop, Inl (ValueError ''insufficient bottle stock for this order'')) \<and>
   (\<exists>d' s. record_order server tank_store ((order_of 1 2)\<lparr>bottles_used := Some 3\<rparr>) =
        (d', Inr (s, ''5L water'')) \<and>
      sale_bottles_used s = 3 \<and> map m_reason (movements d') = [''order:1''] \<and> inventory d' = []) \<and>
   record_order server tank_store ((order_of 1 2)\<lparr>bottles_used := Some (2 ^ 63)\<rparr>) =
     (tank_store, Inl OverflowError)"
proof -
  let ?m = "\<lparr>ps_product_id = 1, ps_source_id = 1, ps_factor = 5\<rparr>"
  let ?p = "\<lparr>p_id = 1, p_name = ''5L water'', p_unit_price = 40\<rparr>"
  let ?a1 = "(order_of 1 2)\<lparr>use_bottle := True\<rparr>"
  let ?a2 = "(order_of 1 2)\<lparr>bottles_used := Some 500\<rparr>"
  let ?a3 = "(order_of 1 2)\<lparr>bottles_used := Some 3\<rparr>"
  let ?a4 = "(order_of 1 2)\<lparr>bottles_used := Some (2 ^ 63)\<rparr>"
  have common: "lookup_product shop 1 = Inr ?p"
    "find (\<lambda>m. ps_product_id m = 1) (product_sources shop) = Some ?m"
    "find_bottle_pid shop (Some ?m) = Some 2"
    "lookup_product tank_store 1 = Inr ?p"
    "find (\<lambda>m. ps_product_id m = 1) (product_sources tank_store) = Some ?m"
    "find_bottle_pid tank_store (Some ?m) = None"
    "py_float 2 = Inr 2" "py_float 500 = Inr 500"
    by (simp_all add: run_defs)
  have a1: "quantity ?a1 = 2" "product_id ?a1 = 1" "ts server ?a1 = Inr (utcnow_stamp server)"
    "created_by ?a1 = None" "order_total ?p ?a1 = Inr 80"
    by (simp_all add: order_of_def ts_def od_dt_def od_dt_client_def order_total_def)
  have a2: "quantity ?a2 = 2" "product_id ?a2 = 1" "ts server ?a2 = Inr (utcnow_stamp server)"
    "order_total ?p ?a2 = Inr 80"
    by (simp_all add: order_of_def ts_def od_dt_def od_dt_client_def order_total_def)
  have a3: "quantity ?a3 = 2" "product_id ?a3 = 1" "ts server ?a3 = Inr (utcnow_stamp server)"
    "order_total ?p ?a3 = Inr 80"
    by (simp_all add: order_of_def ts_def od_dt_def od_dt_client_def order_total_def)
  have a4: "quantity ?a4 = 2" "product_id ?a4 = 1" "ts server ?a4 = Inr (utcnow_stamp server)"
    "order_total ?p ?a4 = Inr 80"
    by (simp_all add: order_of_def ts_def od_dt_def od_dt_client_def order_total_def)
  obtain d1 where draw1: "draw_stock server shop ?a1 (Some ?m) = Inr d1"
    by (simp add: run_defs)
  have d1: "inventory_quantity d1 2 = 120" "map m_reason (movements d1) = [''order:1'']"
    "map m_delta (movements d1) = [- 10]"
    "bottles_to_consume d1 ?a1 (Some ?m) = Inr (Some 2)"
    unfolding draw_stock_mapped(1) [OF draw1] by (simp_all add: run_defs)
  obtain d2 where draw2: "draw_stock server shop ?a2 (Some ?m) = Inr d2"
    by (simp add: run_defs)
  have d2: "inventory_quantity d2 2 = 120" "bottles_to_consume d2 ?a2 (Some ?m) = Inr (Some 500)"
    unfolding draw_stock_mapped(1) [OF draw2] by (simp_all add: run_defs)
  obtain d3 where draw3: "draw_stock server tank_store ?a3 (Some ?m) = Inr d3"
    by (simp add: run_defs)
  have d3: "inventory d3 = []" "map m_reason (movements d3) = [''order:1'']"
    "bottles_to_consume d3 ?a3 (Some ?m) = Inr (Some 3)"
    unfolding draw_stock_mapped(1) [OF draw3] by (simp_all add: run_defs)
  obtain d4 where draw4: "draw_stock server tank_store ?a4 (Some ?m) = Inr d4"
    by (simp add: run_defs)
  have d4: "bottles_to_consume d4 ?a4 (Some ?m) = Inr (Some (2 ^ 63))"
    by (simp add: bottles_to_consume_def order_of_def)
  from bottles_consumed [where a = ?a1 and d = shop and p = ?p and tot = 80 and e = server
      and stamp = "utcnow_stamp server" and mp = "Some ?m" and ?d1.0 = d1 and k = 2 and bp = 2
      and c = 2]
    common a1 draw1 d1
  obtain d' s where "record_order server shop ?a1 = (d', Inr (s, ''5L water''))"
    "sale_bottles_used s = 2" "inventory_quantity d' 2 = 120 - 2"
    "map m_reason (movements d') = [''order:1'', ''order_bottle:1'']"
    "map m_delta (movements d') = [- 10, - 2]"
    by (auto simp: str_int_def)
  then have one: "\<exists>d' s. record_order server shop ?a1 = (d', Inr (s, ''5L water'')) \<and>
      sale_bottles_used s = 2 \<and> inventory_quantity d' 2 = 120 - 2 \<and>
      map m_reason (movements d') = [''order:1'', ''order_bottle:1''] \<and>
      map m_delta (movements d') = [- 10, - 2]" by auto
  from bottles_consumed [where a = ?a2 and d = shop and p = ?p and tot = 80 and e = server
      and stamp = "utcnow_stamp server" and mp = "Some ?m" and ?d1.0 = d2 and k = 500 and bp = 2
      and c = 500]
    common a2 draw2 d2
  have two: "record_order server shop ?a2 =
     (shop, Inl (ValueError ''insufficient bottle stock for this order''))"
    by simp
  from bottles_consumed [where a = ?a3 and d = tank_store and p = ?p and tot = 80 and e = server
      and stamp = "utcnow_stamp server" and mp = "Some ?m" and ?d1.0 = d3 and k = 3]
    common a3 draw3 d3
  obtain s3 where "record_order server tank_store ?a3 =
      (d3\<lparr>sales := sales d3 @ [s3]\<rparr>, Inr (s3, ''5L water''))" "sale_bottles_used s3 = 3"
    by auto
  with d3 have three: "\<exists>d' s. record_order server tank_store ?a3 = (d', Inr (s, ''5L water'')) \<and>
      sale_bottles_used s = 3 \<and> map m_reason (movements d') = [''order:1''] \<and> inventory d' = []"
    by simp
  from bottles_consumed [where a = ?a4 and d = tank_store and p = ?p and tot = 80 and e = server
      and stamp = "utcnow_stamp server" and mp = "Some ?m" and ?d1.0 = d4 and k = "2 ^ 63"]
    common a4 draw4 d4
  have four: "record_order server tank_store ?a4 = (tank_store, Inl OverflowError)"
    by simp
  from one two three four show ?thesis by (intro conjI)
qed

end
